theory Spec2Isabelle
  imports Main "HOL-Library.Word"
begin

text \<open>
  The Go package \<^verbatim>\<open>t2z\<close> binds a native library that builds, proves, signs and
  finalizes partially constructed Zcash transactions (PCZT). The package owns little
  logic of its own: the serialization of the transparent inputs, the guards before each
  native call, and the discipline of the handles, which a consuming call takes away from
  its \<^verbatim>\<open>PCZT\<close> even when it fails. This theory models the package function by function
  over an explicit state of Go objects and native handles, takes what the native functions
  compute as parameters, and models from the specification the few native behaviours
  that a property depends on.
\<close>

section \<open>Bytes and fixed-size arrays\<close>

type_synonym byte = "8 word"

text \<open>The Go type \<^verbatim>\<open>[32]byte\<close>.\<close>

typedef array32 = "{xs :: byte list. length xs = 32}"
  by (rule exI [of _ "replicate 32 0"]) simp

section \<open>The binding's data: result codes, errors, payments, handles\<close>

text \<open>
  The enumeration \<^verbatim>\<open>ResultCode\<close> of \<^verbatim>\<open>t2z.h\<close>, which \<^verbatim>\<open>t2z.go\<close> mirrors constant by
  constant.
\<close>

datatype ResultCode =
    SUCCESS
  | ERROR_NULL_POINTER
  | ERROR_INVALID_UTF8
  | ERROR_BUFFER_TOO_SMALL
  | ERROR_PROPOSAL
  | ERROR_PROVER
  | ERROR_VERIFICATION
  | ERROR_SIGHASH
  | ERROR_SIGNATURE
  | ERROR_COMBINE
  | ERROR_FINALIZATION
  | ERROR_PARSE
  | ERROR_NOT_IMPLEMENTED

text \<open>
  The Go \<^verbatim>\<open>error\<close> values the package returns: one constructor for each
  \<^verbatim>\<open>errors.New\<close> and \<^verbatim>\<open>fmt.Errorf\<close> of \<^verbatim>\<open>t2z.go\<close>, \<open>T2zError\<close> for what
  \<^verbatim>\<open>wrapError\<close> builds from a result code and the last error message, and \<open>Panic\<close> for
  a run-time panic, which is an outcome of the model and not a returned value.
\<close>

datatype go_error =
    ErrAtLeastOnePayment
  | ErrAtLeastOneInput
  | ErrInvalidRequest
  | ErrInvalidPCZT
  | ErrInvalidPCZTAt nat
  | ErrAtLeastOnePCZT
  | ErrEmptyBytes
  | T2zError ResultCode string
  | Panic string

record Payment =
  Address :: string
  Amount :: "64 word"
  Memo :: string
  Label :: string
  Message :: string

text \<open>\<^verbatim>\<open>CPayment\<close> of \<^verbatim>\<open>t2z.h\<close>; a \<^verbatim>\<open>NULL\<close> string is \<open>None\<close>. The fields carry the prefix \<open>c_\<close>.\<close>

record CPayment =
  c_address :: string
  c_amount :: "64 word"
  c_memo :: "string option"
  c_label :: "string option"
  c_message :: "string option"

record TransparentOutput =
  ScriptPubKey :: "byte list"
  Value :: "64 word"

record CTransparentOutput =
  c_script_pub_key :: "byte list option"
  c_script_pub_key_len :: nat
  c_value :: "64 word"

text \<open>
  The Go structs holding a native handle. A handle is a native address; \<^verbatim>\<open>nil\<close> is
  \<open>None\<close>.
\<close>

record TransactionRequest =
  Payments :: "Payment list"
  handle :: "nat option"

record PCZT =
  handle :: "nat option"

section \<open>Transparent inputs and their serialization\<close>

record TransparentInput =
  Pubkey :: "byte list"
  TxID :: array32
  Vout :: "32 word"
  Amount :: "64 word"
  ScriptPubKey :: "byte list"

text \<open>
  \<^verbatim>\<open>serializeTransparentInputs\<close>: the loop over the inputs appends to \<open>buf\<close>;
  \<^verbatim>\<open>byte(x >> n)\<close> is \<open>ucast (drop_bit n x)\<close> and \<^verbatim>\<open>uint16(len(...))\<close> keeps the low 16
  bits of the length.
\<close>

fun serialize_inputs_loop :: "byte list \<Rightarrow> TransparentInput list \<Rightarrow> byte list" where
  "serialize_inputs_loop buf [] = buf"
| "serialize_inputs_loop buf (input # inputs) =
     (let buf = buf @ Pubkey input;
          buf = buf @ Rep_array32 (TxID input);
          vout = Vout input;
          buf = buf @ [ucast vout, ucast (drop_bit 8 vout), ucast (drop_bit 16 vout),
                       ucast (drop_bit 24 vout)];
          amount = Amount input;
          buf = buf @ [ucast amount, ucast (drop_bit 8 amount), ucast (drop_bit 16 amount),
                       ucast (drop_bit 24 amount), ucast (drop_bit 32 amount),
                       ucast (drop_bit 40 amount), ucast (drop_bit 48 amount),
                       ucast (drop_bit 56 amount)];
          scriptLen = (of_nat (length (ScriptPubKey input)) :: 16 word);
          buf = buf @ [ucast scriptLen, ucast (drop_bit 8 scriptLen)];
          buf = buf @ ScriptPubKey input
      in serialize_inputs_loop buf inputs)"

definition serializeTransparentInputs :: "TransparentInput list \<Rightarrow> byte list" where
  "serializeTransparentInputs inputs =
     (let buf = [];
          numInputs = (of_nat (length inputs) :: 16 word);
          buf = buf @ [ucast numInputs, ucast (drop_bit 8 numInputs)]
      in serialize_inputs_loop buf inputs)"

text \<open>
  The layout as the specification words it, to compare the code with. A little-endian
  field of \<open>k\<close> bytes holds a number below \<open>256 ^ k\<close>, a field of fixed size holds
  exactly that many bytes; a value that does not fit has no layout.
\<close>

definition le_field :: "nat \<Rightarrow> nat \<Rightarrow> byte list option" where
  "le_field k n =
     (if n < 256 ^ k then Some (map (\<lambda>j. of_nat (n div 256 ^ j mod 256)) [0..<k]) else None)"

definition fixed_field :: "nat \<Rightarrow> byte list \<Rightarrow> byte list option" where
  "fixed_field k bs = (if length bs = k then Some bs else None)"

definition input_layout :: "TransparentInput \<Rightarrow> byte list option" where
  "input_layout i =
     (case (fixed_field 33 (Pubkey i), fixed_field 32 (Rep_array32 (TxID i)),
            le_field 4 (unat (Vout i)), le_field 8 (unat (Amount i)),
            le_field 2 (length (ScriptPubKey i))) of
        (Some key, Some txid, Some vout, Some amount, Some scriptLen) \<Rightarrow>
          Some (key @ txid @ vout @ amount @ scriptLen @ ScriptPubKey i)
      | _ \<Rightarrow> None)"

fun inputs_layout :: "TransparentInput list \<Rightarrow> byte list option" where
  "inputs_layout [] = Some []"
| "inputs_layout (i # rest) =
     (case (input_layout i, inputs_layout rest) of
        (Some b, Some bs) \<Rightarrow> Some (b @ bs)
      | _ \<Rightarrow> None)"

definition wire_layout :: "TransparentInput list \<Rightarrow> byte list option" where
  "wire_layout inputs =
     (case (le_field 2 (length inputs), inputs_layout inputs) of
        (Some count, Some body) \<Rightarrow> Some (count @ body)
      | _ \<Rightarrow> None)"

text \<open>The input of \<^verbatim>\<open>TestSerializeTransparentInputs\<close> in \<^verbatim>\<open>t2z_test.go\<close>.\<close>

definition test_pubkey :: "byte list" where
  "test_pubkey =
     [2, 121, 190, 102, 126, 249, 220, 187, 172, 85, 160, 98,
      149, 206, 135, 11, 7, 2, 155, 252, 219, 45, 206, 40,
      217, 89, 242, 129, 91, 22, 248, 23, 152]"

definition test_txid :: array32 where
  "test_txid = Abs_array32
     [48, 48, 48, 48, 48, 48, 48, 48, 48, 48, 48, 48,
      48, 48, 48, 48, 48, 48, 48, 48, 48, 48, 48, 48,
      48, 48, 48, 48, 116, 101, 115, 116]"

definition test_script :: "byte list" where
  "test_script =
     [118, 169, 20, 0, 0, 0, 0, 0, 0, 0, 0, 0,
      0, 0, 0, 0, 0, 0, 0, 0, 0, 0, 0, 136,
      172]"

definition test_input :: TransparentInput where
  "test_input = \<lparr>Pubkey = test_pubkey, TxID = test_txid, Vout = 0, Amount = 100000000,
     ScriptPubKey = test_script\<rparr>"

text \<open>The same input with an empty key, and with a script of 65536 bytes.\<close>

definition keyless_input :: TransparentInput where
  "keyless_input = test_input\<lparr>Pubkey := []\<rparr>"

definition long_script_input :: TransparentInput where
  "long_script_input = test_input\<lparr>ScriptPubKey := replicate 65536 0\<rparr>"

text \<open>The bytes one pass of the loop appends.\<close>

definition input_bytes :: "TransparentInput \<Rightarrow> byte list" where
  "input_bytes i = serialize_inputs_loop [] [i]"

section \<open>The state: the Go heap and the native library's heap\<close>

text \<open>
  The calls of the native functions that take or return a handle, and of
  \<^verbatim>\<open>pczt_get_last_error\<close>, are logged with the handles they were given.
\<close>

datatype ffi_call =
    Call_get_last_error
  | Call_transaction_request_new
  | Call_transaction_request_free "nat option"
  | Call_propose_transaction "nat option"
  | Call_prove_transaction "nat option"
  | Call_verify_before_signing "nat option" "nat option"
  | Call_get_sighash "nat option" nat
  | Call_append_signature "nat option" nat
  | Call_finalize_and_extract "nat option"
  | Call_parse
  | Call_serialize "nat option"
  | Call_combine "nat option list"
  | Call_free "nat option"

text \<open>
  The Go side: the \<^verbatim>\<open>PCZT\<close> and \<^verbatim>\<open>TransactionRequest\<close> objects by address, whether
  \<^verbatim>\<open>runtime.SetFinalizer\<close> has a finalizer attached to each, and the next address to
  allocate. A pointer is \<open>nat option\<close>, \<^verbatim>\<open>nil\<close> being \<open>None\<close>; two pointers to the same
  address alias.

  The native side: the documents and requests behind the live handles (types \<open>'d\<close> and
  \<open>'r\<close>: the library's own data), the next handle, the last error message, the log of
  calls, and \<open>fault\<close>, raised when a handle is used or freed after its release.
\<close>

record ('d, 'r) world =
  pczt_heap :: "nat \<Rightarrow> PCZT"
  pczt_finalizer :: "nat \<Rightarrow> bool"
  pczt_next :: nat
  request_heap :: "nat \<Rightarrow> TransactionRequest"
  request_finalizer :: "nat \<Rightarrow> bool"
  request_next :: nat
  native_pczts :: "nat \<rightharpoonup> 'd"
  native_requests :: "nat \<rightharpoonup> 'r"
  native_next :: nat
  last_error :: string
  calls :: "ffi_call list"
  fault :: bool

section \<open>The native functions, as far as the binding depends on them\<close>

text \<open>
  The bodies of the functions declared in \<^verbatim>\<open>t2z.h\<close> are in the static library and not
  among the sources. Each is modelled by what the header states of it: which handles it
  reads (\<^verbatim>\<open>const\<close>) and which it consumes ("ALWAYS consumes the input PCZT handle, even
  on error"), and that it reports a result code and leaves a message for
  \<^verbatim>\<open>pczt_get_last_error\<close>. What it computes from a document is a parameter (the first
  argument of each function below): either an error code with its message or the result.
\<close>

type_synonym 'a native_result = "(ResultCode \<times> string) + 'a"

definition log_call :: "ffi_call \<Rightarrow> ('d, 'r) world \<Rightarrow> ('d, 'r) world" where
  "log_call c w = w\<lparr>calls := calls w @ [c]\<rparr>"

text \<open>Reading a document through a \<^verbatim>\<open>const\<close> handle.\<close>

definition peek_pczt :: "nat option \<Rightarrow> ('d, 'r) world \<Rightarrow> 'd option \<times> ('d, 'r) world" where
  "peek_pczt h w =
     (case h of
        None \<Rightarrow> (None, w)
      | Some a \<Rightarrow>
          (case native_pczts w a of
             None \<Rightarrow> (None, w\<lparr>fault := True\<rparr>)
           | Some d \<Rightarrow> (Some d, w)))"

definition peek_request :: "nat option \<Rightarrow> ('d, 'r) world \<Rightarrow> 'r option \<times> ('d, 'r) world" where
  "peek_request h w =
     (case h of
        None \<Rightarrow> (None, w)
      | Some a \<Rightarrow>
          (case native_requests w a of
             None \<Rightarrow> (None, w\<lparr>fault := True\<rparr>)
           | Some r \<Rightarrow> (Some r, w)))"

text \<open>Taking ownership of a document: its handle is dead afterwards.\<close>

definition take_pczt :: "nat option \<Rightarrow> ('d, 'r) world \<Rightarrow> 'd option \<times> ('d, 'r) world" where
  "take_pczt h w =
     (case h of
        None \<Rightarrow> (None, w)
      | Some a \<Rightarrow>
          (case native_pczts w a of
             None \<Rightarrow> (None, w\<lparr>fault := True\<rparr>)
           | Some d \<Rightarrow> (Some d, w\<lparr>native_pczts := (native_pczts w)(a := None)\<rparr>)))"

fun take_pczts :: "nat option list \<Rightarrow> ('d, 'r) world \<Rightarrow> 'd option list \<times> ('d, 'r) world" where
  "take_pczts [] w = ([], w)"
| "take_pczts (h # hs) w =
     (let (d, w) = take_pczt h w;
          (ds, w) = take_pczts hs w
      in (d # ds, w))"

definition native_fail ::
  "ResultCode \<Rightarrow> string \<Rightarrow> ('d, 'r) world \<Rightarrow> (ResultCode \<times> 'a option) \<times> ('d, 'r) world" where
  "native_fail code msg w = ((code, None), w\<lparr>last_error := msg\<rparr>)"

definition return_pczt ::
  "'d \<Rightarrow> ('d, 'r) world \<Rightarrow> (ResultCode \<times> nat option) \<times> ('d, 'r) world" where
  "return_pczt d w =
     ((SUCCESS, Some (native_next w)),
      w\<lparr>native_pczts := (native_pczts w)(native_next w \<mapsto> d),
        native_next := Suc (native_next w)\<rparr>)"

definition return_request ::
  "'r \<Rightarrow> ('d, 'r) world \<Rightarrow> (ResultCode \<times> nat option) \<times> ('d, 'r) world" where
  "return_request r w =
     ((SUCCESS, Some (native_next w)),
      w\<lparr>native_requests := (native_requests w)(native_next w \<mapsto> r),
        native_next := Suc (native_next w)\<rparr>)"

definition null_pointer :: string where
  "null_pointer = ''null pointer''"

definition pczt_get_last_error ::
  "nat \<Rightarrow> ('d, 'r) world \<Rightarrow> (ResultCode \<times> string) \<times> ('d, 'r) world" where
  "pczt_get_last_error aBufferLen w0 =
     (let w = log_call Call_get_last_error w0 in
      if length (last_error w) < aBufferLen then ((SUCCESS, last_error w), w)
      else ((ERROR_BUFFER_TOO_SMALL, []), w))"

definition pczt_transaction_request_new ::
  "(CPayment list \<Rightarrow> 'r native_result) \<Rightarrow> CPayment list \<Rightarrow> ('d, 'r) world \<Rightarrow>
     (ResultCode \<times> nat option) \<times> ('d, 'r) world" where
  "pczt_transaction_request_new n_new aPayments w0 =
     (let w = log_call Call_transaction_request_new w0 in
      case n_new aPayments of
        Inl (code, msg) \<Rightarrow> native_fail code msg w
      | Inr r \<Rightarrow> return_request r w)"

definition pczt_transaction_request_free :: "nat option \<Rightarrow> ('d, 'r) world \<Rightarrow> ('d, 'r) world" where
  "pczt_transaction_request_free aRequest w0 =
     (let w = log_call (Call_transaction_request_free aRequest) w0 in
      case aRequest of
        None \<Rightarrow> w
      | Some a \<Rightarrow>
          (case native_requests w a of
             None \<Rightarrow> w\<lparr>fault := True\<rparr>
           | Some r \<Rightarrow> w\<lparr>native_requests := (native_requests w)(a := None)\<rparr>))"

definition pczt_free :: "nat option \<Rightarrow> ('d, 'r) world \<Rightarrow> ('d, 'r) world" where
  "pczt_free aPczt w0 =
     (let w = log_call (Call_free aPczt) w0 in
      case aPczt of
        None \<Rightarrow> w
      | Some a \<Rightarrow>
          (case native_pczts w a of
             None \<Rightarrow> w\<lparr>fault := True\<rparr>
           | Some d \<Rightarrow> w\<lparr>native_pczts := (native_pczts w)(a := None)\<rparr>))"

definition pczt_propose_transaction ::
  "(byte list \<Rightarrow> 'r \<Rightarrow> string option \<Rightarrow> 'd native_result) \<Rightarrow> byte list \<Rightarrow> nat option \<Rightarrow>
     string option \<Rightarrow> ('d, 'r) world \<Rightarrow> (ResultCode \<times> nat option) \<times> ('d, 'r) world" where
  "pczt_propose_transaction n_propose aInputsBytes aRequest aChangeAddress w0 =
     (let w = log_call (Call_propose_transaction aRequest) w0;
          (r, w) = peek_request aRequest w
      in case r of
           None \<Rightarrow> native_fail ERROR_NULL_POINTER null_pointer w
         | Some r \<Rightarrow>
             (case n_propose aInputsBytes r aChangeAddress of
                Inl (code, msg) \<Rightarrow> native_fail code msg w
              | Inr d \<Rightarrow> return_pczt d w))"

definition pczt_prove_transaction ::
  "('d \<Rightarrow> 'd native_result) \<Rightarrow> nat option \<Rightarrow> ('d, 'r) world \<Rightarrow>
     (ResultCode \<times> nat option) \<times> ('d, 'r) world" where
  "pczt_prove_transaction n_prove aPczt w0 =
     (let w = log_call (Call_prove_transaction aPczt) w0;
          (d, w) = take_pczt aPczt w
      in case d of
           None \<Rightarrow> native_fail ERROR_NULL_POINTER null_pointer w
         | Some d \<Rightarrow>
             (case n_prove d of
                Inl (code, msg) \<Rightarrow> native_fail code msg w
              | Inr d' \<Rightarrow> return_pczt d' w))"

definition pczt_verify_before_signing ::
  "('d \<Rightarrow> 'r \<Rightarrow> CTransparentOutput list \<Rightarrow> unit native_result) \<Rightarrow> nat option \<Rightarrow> nat option \<Rightarrow>
     CTransparentOutput list \<Rightarrow> ('d, 'r) world \<Rightarrow> ResultCode \<times> ('d, 'r) world" where
  "pczt_verify_before_signing n_verify aPczt aRequest aExpectedChange w0 =
     (let w = log_call (Call_verify_before_signing aPczt aRequest) w0;
          (d, w) = peek_pczt aPczt w;
          (r, w) = peek_request aRequest w
      in case (d, r) of
           (Some d, Some r) \<Rightarrow>
             (case n_verify d r aExpectedChange of
                Inl (code, msg) \<Rightarrow> (code, w\<lparr>last_error := msg\<rparr>)
              | Inr u \<Rightarrow> (SUCCESS, w))
         | _ \<Rightarrow> (ERROR_NULL_POINTER, w\<lparr>last_error := null_pointer\<rparr>))"

definition pczt_get_sighash ::
  "('d \<Rightarrow> nat \<Rightarrow> byte list native_result) \<Rightarrow> nat option \<Rightarrow> nat \<Rightarrow> ('d, 'r) world \<Rightarrow>
     (ResultCode \<times> byte list option) \<times> ('d, 'r) world" where
  "pczt_get_sighash n_sighash aPczt aInputIndex w0 =
     (let w = log_call (Call_get_sighash aPczt aInputIndex) w0;
          (d, w) = peek_pczt aPczt w
      in case d of
           None \<Rightarrow> native_fail ERROR_NULL_POINTER null_pointer w
         | Some d \<Rightarrow>
             (case n_sighash d aInputIndex of
                Inl (code, msg) \<Rightarrow> native_fail code msg w
              | Inr digest \<Rightarrow> ((SUCCESS, Some digest), w)))"

definition pczt_append_signature ::
  "('d \<Rightarrow> nat \<Rightarrow> byte list \<Rightarrow> 'd native_result) \<Rightarrow> nat option \<Rightarrow> nat \<Rightarrow> byte list \<Rightarrow>
     ('d, 'r) world \<Rightarrow> (ResultCode \<times> nat option) \<times> ('d, 'r) world" where
  "pczt_append_signature n_append aPczt aInputIndex aSignature w0 =
     (let w = log_call (Call_append_signature aPczt aInputIndex) w0;
          (d, w) = take_pczt aPczt w
      in case d of
           None \<Rightarrow> native_fail ERROR_NULL_POINTER null_pointer w
         | Some d \<Rightarrow>
             (case n_append d aInputIndex aSignature of
                Inl (code, msg) \<Rightarrow> native_fail code msg w
              | Inr d' \<Rightarrow> return_pczt d' w))"

definition pczt_finalize_and_extract ::
  "('d \<Rightarrow> byte list native_result) \<Rightarrow> nat option \<Rightarrow> ('d, 'r) world \<Rightarrow>
     (ResultCode \<times> byte list option) \<times> ('d, 'r) world" where
  "pczt_finalize_and_extract n_finalize aPczt w0 =
     (let w = log_call (Call_finalize_and_extract aPczt) w0;
          (d, w) = take_pczt aPczt w
      in case d of
           None \<Rightarrow> native_fail ERROR_NULL_POINTER null_pointer w
         | Some d \<Rightarrow>
             (case n_finalize d of
                Inl (code, msg) \<Rightarrow> native_fail code msg w
              | Inr tx \<Rightarrow> ((SUCCESS, Some tx), w)))"

definition pczt_parse ::
  "(byte list \<Rightarrow> 'd native_result) \<Rightarrow> byte list \<Rightarrow> ('d, 'r) world \<Rightarrow>
     (ResultCode \<times> nat option) \<times> ('d, 'r) world" where
  "pczt_parse n_parse aPcztBytes w0 =
     (let w = log_call Call_parse w0 in
      case n_parse aPcztBytes of
        Inl (code, msg) \<Rightarrow> native_fail code msg w
      | Inr d \<Rightarrow> return_pczt d w)"

definition pczt_serialize ::
  "('d \<Rightarrow> byte list native_result) \<Rightarrow> nat option \<Rightarrow> ('d, 'r) world \<Rightarrow>
     (ResultCode \<times> byte list option) \<times> ('d, 'r) world" where
  "pczt_serialize n_serialize aPczt w0 =
     (let w = log_call (Call_serialize aPczt) w0;
          (d, w) = peek_pczt aPczt w
      in case d of
           None \<Rightarrow> native_fail ERROR_NULL_POINTER null_pointer w
         | Some d \<Rightarrow>
             (case n_serialize d of
                Inl (code, msg) \<Rightarrow> native_fail code msg w
              | Inr bytes \<Rightarrow> ((SUCCESS, Some bytes), w)))"

fun all_some :: "'a option list \<Rightarrow> 'a list option" where
  "all_some [] = Some []"
| "all_some (None # xs) = None"
| "all_some (Some x # xs) = (case all_some xs of None \<Rightarrow> None | Some ys \<Rightarrow> Some (x # ys))"

definition pczt_combine ::
  "('d list \<Rightarrow> 'd native_result) \<Rightarrow> nat option list \<Rightarrow> ('d, 'r) world \<Rightarrow>
     (ResultCode \<times> nat option) \<times> ('d, 'r) world" where
  "pczt_combine n_combine aPczts w0 =
     (let w = log_call (Call_combine aPczts) w0;
          (ds, w) = take_pczts aPczts w
      in case all_some ds of
           None \<Rightarrow> native_fail ERROR_NULL_POINTER null_pointer w
         | Some ds \<Rightarrow>
             (case n_combine ds of
                Inl (code, msg) \<Rightarrow> native_fail code msg w
              | Inr d \<Rightarrow> return_pczt d w))"

section \<open>The Go package \<^verbatim>\<open>t2z\<close>\<close>

text \<open>
  Each function of \<^verbatim>\<open>t2z.go\<close> takes the state and returns its Go results with the new
  state. A result \<^verbatim>\<open>(*PCZT, error)\<close> is a pair of options, as in Go: \<open>(None, Some e)\<close>
  is \<^verbatim>\<open>return nil, e\<close>.
\<close>

definition getLastError :: "('d, 'r) world \<Rightarrow> string \<times> ('d, 'r) world" where
  "getLastError w =
     (let ((code, buf), w) = pczt_get_last_error 512 w in
      if code \<noteq> SUCCESS then (''Failed to get last error'', w)
      else (takeWhile (\<lambda>b. b \<noteq> CHR 0x00) buf, w))"

definition wrapError :: "ResultCode \<Rightarrow> ('d, 'r) world \<Rightarrow> go_error option \<times> ('d, 'r) world" where
  "wrapError code w =
     (if code = SUCCESS then (None, w)
      else (let (msg, w) = getLastError w in (Some (T2zError code msg), w)))"

definition to_CPayment :: "Payment \<Rightarrow> CPayment" where
  "to_CPayment payment =
     \<lparr>c_address = Address payment,
      c_amount = Payment.Amount payment,
      c_memo = (if Memo payment \<noteq> [] then Some (Memo payment) else None),
      c_label = (if Label payment \<noteq> [] then Some (Label payment) else None),
      c_message = (if Message payment \<noteq> [] then Some (Message payment) else None)\<rparr>"

definition NewTransactionRequest ::
  "(CPayment list \<Rightarrow> 'r native_result) \<Rightarrow> Payment list \<Rightarrow> ('d, 'r) world \<Rightarrow>
     (nat option \<times> go_error option) \<times> ('d, 'r) world" where
  "NewTransactionRequest n_new payments w =
     (if length payments = 0 then ((None, Some ErrAtLeastOnePayment), w)
      else
        (let cPayments = map to_CPayment payments;
             ((code, h), w) = pczt_transaction_request_new n_new cPayments w
         in if code \<noteq> SUCCESS then (let (e, w) = wrapError code w in ((None, e), w))
            else
              (let req = request_next w;
                   w = w\<lparr>request_heap := (request_heap w)
                          (req := \<lparr>Payments = payments, handle = h\<rparr>),
                        request_finalizer := (request_finalizer w)(req := True),
                        request_next := Suc req\<rparr>
               in ((Some req, None), w))))"

text \<open>The finalizer \<^verbatim>\<open>NewTransactionRequest\<close> attaches, when the collector runs it.\<close>

definition request_finalize :: "nat \<Rightarrow> ('d, 'r) world \<Rightarrow> ('d, 'r) world" where
  "request_finalize r w =
     (if request_finalizer w r then
        (let w = w\<lparr>request_finalizer := (request_finalizer w)(r := False)\<rparr> in
         if TransactionRequest.handle (request_heap w r) \<noteq> None
         then pczt_transaction_request_free (TransactionRequest.handle (request_heap w r)) w
         else w)
      else w)"

text \<open>\<^verbatim>\<open>func (r *TransactionRequest) Free()\<close>, on the object at address \<open>r\<close>.\<close>

definition TransactionRequest_Free :: "nat \<Rightarrow> ('d, 'r) world \<Rightarrow> ('d, 'r) world" where
  "TransactionRequest_Free r w =
     (if TransactionRequest.handle (request_heap w r) \<noteq> None then
        (let w = w\<lparr>request_finalizer := (request_finalizer w)(r := False)\<rparr>;
             w = pczt_transaction_request_free (TransactionRequest.handle (request_heap w r)) w
         in w\<lparr>request_heap := (request_heap w)
                 (r := (request_heap w r)\<lparr>TransactionRequest.handle := None\<rparr>)\<rparr>)
      else w)"

definition newPCZT :: "nat option \<Rightarrow> ('d, 'r) world \<Rightarrow> nat \<times> ('d, 'r) world" where
  "newPCZT h w =
     (let p = pczt_next w
      in (p, w\<lparr>pczt_heap := (pczt_heap w)(p := \<lparr>handle = h\<rparr>),
               pczt_finalizer := (pczt_finalizer w)(p := True),
               pczt_next := Suc p\<rparr>))"

text \<open>The finalizer \<^verbatim>\<open>newPCZT\<close> attaches, when the collector runs it.\<close>

definition pczt_finalize :: "nat \<Rightarrow> ('d, 'r) world \<Rightarrow> ('d, 'r) world" where
  "pczt_finalize p w =
     (if pczt_finalizer w p then
        (let w = w\<lparr>pczt_finalizer := (pczt_finalizer w)(p := False)\<rparr> in
         if handle (pczt_heap w p) \<noteq> None then pczt_free (handle (pczt_heap w p)) w else w)
      else w)"

text \<open>\<^verbatim>\<open>func (p *PCZT) Free()\<close>, on the object at address \<open>p\<close>.\<close>

definition PCZT_Free :: "nat \<Rightarrow> ('d, 'r) world \<Rightarrow> ('d, 'r) world" where
  "PCZT_Free p w =
     (if handle (pczt_heap w p) \<noteq> None then
        (let w = w\<lparr>pczt_finalizer := (pczt_finalizer w)(p := False)\<rparr>;
             w = pczt_free (handle (pczt_heap w p)) w
         in w\<lparr>pczt_heap := (pczt_heap w)(p := (pczt_heap w p)\<lparr>handle := None\<rparr>)\<rparr>)
      else w)"

definition consumeHandle :: "nat \<Rightarrow> ('d, 'r) world \<Rightarrow> nat option \<times> ('d, 'r) world" where
  "consumeHandle p w =
     (if handle (pczt_heap w p) = None then (None, w)
      else
        (let w = w\<lparr>pczt_finalizer := (pczt_finalizer w)(p := False)\<rparr>;
             h = handle (pczt_heap w p)
         in (h, w\<lparr>pczt_heap := (pczt_heap w)(p := (pczt_heap w p)\<lparr>handle := None\<rparr>)\<rparr>)))"

definition ProposeTransactionWithChange ::
  "(byte list \<Rightarrow> 'r \<Rightarrow> string option \<Rightarrow> 'd native_result) \<Rightarrow> TransparentInput list \<Rightarrow>
     nat option \<Rightarrow> string \<Rightarrow> ('d, 'r) world \<Rightarrow> (nat option \<times> go_error option) \<times> ('d, 'r) world" where
  "ProposeTransactionWithChange n_propose inputs request changeAddress w =
     (if length inputs = 0 then ((None, Some ErrAtLeastOneInput), w)
      else
        (case request of
           None \<Rightarrow> ((None, Some ErrInvalidRequest), w)
         | Some r \<Rightarrow>
             if TransactionRequest.handle (request_heap w r) = None
             then ((None, Some ErrInvalidRequest), w)
             else
               (let inputBytes = serializeTransparentInputs inputs;
                    cChangeAddr = (if changeAddress \<noteq> [] then Some changeAddress else None);
                    ((code, pcztHandle), w) =
                      pczt_propose_transaction n_propose inputBytes
                        (TransactionRequest.handle (request_heap w r)) cChangeAddr w
                in if code \<noteq> SUCCESS then (let (e, w) = wrapError code w in ((None, e), w))
                   else (let (p, w) = newPCZT pcztHandle w in ((Some p, None), w)))))"

definition ProposeTransaction ::
  "(byte list \<Rightarrow> 'r \<Rightarrow> string option \<Rightarrow> 'd native_result) \<Rightarrow> TransparentInput list \<Rightarrow>
     nat option \<Rightarrow> ('d, 'r) world \<Rightarrow> (nat option \<times> go_error option) \<times> ('d, 'r) world" where
  "ProposeTransaction n_propose inputs request w =
     ProposeTransactionWithChange n_propose inputs request [] w"

definition ProveTransaction ::
  "('d \<Rightarrow> 'd native_result) \<Rightarrow> nat option \<Rightarrow> ('d, 'r) world \<Rightarrow>
     (nat option \<times> go_error option) \<times> ('d, 'r) world" where
  "ProveTransaction n_prove pczt w =
     (case pczt of
        None \<Rightarrow> ((None, Some ErrInvalidPCZT), w)
      | Some p \<Rightarrow>
          if handle (pczt_heap w p) = None then ((None, Some ErrInvalidPCZT), w)
          else
            (let (h, w) = consumeHandle p w;
                 ((code, outHandle), w) = pczt_prove_transaction n_prove h w
             in if code \<noteq> SUCCESS then (let (e, w) = wrapError code w in ((None, e), w))
                else (let (q, w) = newPCZT outHandle w in ((Some q, None), w))))"

text \<open>The zero value of \<^verbatim>\<open>[32]byte\<close>, returned with every error of \<^verbatim>\<open>GetSighash\<close>.\<close>

definition zero32 :: "byte list" where
  "zero32 = replicate 32 0"

definition GetSighash ::
  "('d \<Rightarrow> nat \<Rightarrow> byte list native_result) \<Rightarrow> nat option \<Rightarrow> nat \<Rightarrow> ('d, 'r) world \<Rightarrow>
     (byte list \<times> go_error option) \<times> ('d, 'r) world" where
  "GetSighash n_sighash pczt inputIndex w =
     (case pczt of
        None \<Rightarrow> ((zero32, Some ErrInvalidPCZT), w)
      | Some p \<Rightarrow>
          if handle (pczt_heap w p) = None then ((zero32, Some ErrInvalidPCZT), w)
          else
            (let ((code, out), w) =
                   pczt_get_sighash n_sighash (handle (pczt_heap w p)) inputIndex w;
                 sighash = (case out of None \<Rightarrow> zero32 | Some digest \<Rightarrow> digest)
             in if code \<noteq> SUCCESS then (let (e, w) = wrapError code w in ((zero32, e), w))
                else ((sighash, None), w)))"

definition AppendSignature ::
  "('d \<Rightarrow> nat \<Rightarrow> byte list \<Rightarrow> 'd native_result) \<Rightarrow> nat option \<Rightarrow> nat \<Rightarrow> byte list \<Rightarrow>
     ('d, 'r) world \<Rightarrow> (nat option \<times> go_error option) \<times> ('d, 'r) world" where
  "AppendSignature n_append pczt inputIndex signature w =
     (case pczt of
        None \<Rightarrow> ((None, Some ErrInvalidPCZT), w)
      | Some p \<Rightarrow>
          if handle (pczt_heap w p) = None then ((None, Some ErrInvalidPCZT), w)
          else
            (let (h, w) = consumeHandle p w;
                 ((code, outHandle), w) =
                   pczt_append_signature n_append h inputIndex signature w
             in if code \<noteq> SUCCESS then (let (e, w) = wrapError code w in ((None, e), w))
                else (let (q, w) = newPCZT outHandle w in ((Some q, None), w))))"

text \<open>
  \<^verbatim>\<open>C.GoBytes(ptr, C.int(len))\<close>: the length goes through a 32-bit signed integer, and a
  negative length panics (\<open>None\<close>).
\<close>

definition GoBytes :: "byte list \<Rightarrow> byte list option" where
  "GoBytes bytes =
     (let n = sint (of_nat (length bytes) :: 32 word)
      in if n < 0 then None else Some (take (nat n) bytes))"

definition copy_out ::
  "byte list option \<Rightarrow> ('d, 'r) world \<Rightarrow> (byte list option \<times> go_error option) \<times> ('d, 'r) world" where
  "copy_out out w =
     (case GoBytes (case out of None \<Rightarrow> [] | Some bytes \<Rightarrow> bytes) of
        None \<Rightarrow> ((None, Some (Panic ''gobytes: length out of range'')), w)
      | Some result \<Rightarrow> ((Some result, None), w))"

definition FinalizeAndExtract ::
  "('d \<Rightarrow> byte list native_result) \<Rightarrow> nat option \<Rightarrow> ('d, 'r) world \<Rightarrow>
     (byte list option \<times> go_error option) \<times> ('d, 'r) world" where
  "FinalizeAndExtract n_finalize pczt w =
     (case pczt of
        None \<Rightarrow> ((None, Some ErrInvalidPCZT), w)
      | Some p \<Rightarrow>
          if handle (pczt_heap w p) = None then ((None, Some ErrInvalidPCZT), w)
          else
            (let (h, w) = consumeHandle p w;
                 ((code, txBytes), w) = pczt_finalize_and_extract n_finalize h w
             in if code \<noteq> SUCCESS then (let (e, w) = wrapError code w in ((None, e), w))
                else copy_out txBytes w))"

definition ParsePCZT ::
  "(byte list \<Rightarrow> 'd native_result) \<Rightarrow> byte list \<Rightarrow> ('d, 'r) world \<Rightarrow>
     (nat option \<times> go_error option) \<times> ('d, 'r) world" where
  "ParsePCZT n_parse pcztBytes w =
     (if length pcztBytes = 0 then ((None, Some ErrEmptyBytes), w)
      else
        (let ((code, h), w) = pczt_parse n_parse pcztBytes w
         in if code \<noteq> SUCCESS then (let (e, w) = wrapError code w in ((None, e), w))
            else (let (p, w) = newPCZT h w in ((Some p, None), w))))"

definition SerializePCZT ::
  "('d \<Rightarrow> byte list native_result) \<Rightarrow> nat option \<Rightarrow> ('d, 'r) world \<Rightarrow>
     (byte list option \<times> go_error option) \<times> ('d, 'r) world" where
  "SerializePCZT n_serialize pczt w =
     (case pczt of
        None \<Rightarrow> ((None, Some ErrInvalidPCZT), w)
      | Some p \<Rightarrow>
          if handle (pczt_heap w p) = None then ((None, Some ErrInvalidPCZT), w)
          else
            (let ((code, bytes), w) = pczt_serialize n_serialize (handle (pczt_heap w p)) w
             in if code \<noteq> SUCCESS then (let (e, w) = wrapError code w in ((None, e), w))
                else copy_out bytes w))"

text \<open>The validation loop of \<^verbatim>\<open>Combine\<close>: the index of the first invalid element.\<close>

fun first_invalid :: "(nat \<Rightarrow> PCZT) \<Rightarrow> nat \<Rightarrow> nat option list \<Rightarrow> nat option" where
  "first_invalid heap i [] = None"
| "first_invalid heap i (None # pczts) = Some i"
| "first_invalid heap i (Some p # pczts) =
     (if handle (heap p) = None then Some i else first_invalid heap (Suc i) pczts)"

text \<open>
  The consuming loop of \<^verbatim>\<open>Combine\<close>. Calling \<^verbatim>\<open>consumeHandle\<close> on a \<^verbatim>\<open>nil\<close> pointer
  would panic; the validation loop has excluded it.
\<close>

fun consume_handles ::
  "nat option list \<Rightarrow> ('d, 'r) world \<Rightarrow> (go_error + nat option list) \<times> ('d, 'r) world" where
  "consume_handles [] w = (Inr [], w)"
| "consume_handles (None # pczts) w = (Inl (Panic ''nil pointer dereference''), w)"
| "consume_handles (Some p # pczts) w =
     (let (h, w) = consumeHandle p w in
      case consume_handles pczts w of
        (Inl e, w) \<Rightarrow> (Inl e, w)
      | (Inr handles, w) \<Rightarrow> (Inr (h # handles), w))"

definition Combine ::
  "('d list \<Rightarrow> 'd native_result) \<Rightarrow> nat option list \<Rightarrow> ('d, 'r) world \<Rightarrow>
     (nat option \<times> go_error option) \<times> ('d, 'r) world" where
  "Combine n_combine pczts w =
     (if length pczts = 0 then ((None, Some ErrAtLeastOnePCZT), w)
      else
        (case first_invalid (pczt_heap w) 0 pczts of
           Some i \<Rightarrow> ((None, Some (ErrInvalidPCZTAt i)), w)
         | None \<Rightarrow>
             (case consume_handles pczts w of
                (Inl e, w) \<Rightarrow> ((None, Some e), w)
              | (Inr handles, w) \<Rightarrow>
                  (let ((code, outHandle), w) = pczt_combine n_combine handles w
                   in if code \<noteq> SUCCESS
                      then (let (e, w) = wrapError code w in ((None, e), w))
                      else (let (q, w) = newPCZT outHandle w in ((Some q, None), w))))))"

definition to_CTransparentOutput :: "TransparentOutput \<Rightarrow> CTransparentOutput" where
  "to_CTransparentOutput output =
     (if length (TransparentOutput.ScriptPubKey output) > 0
      then \<lparr>c_script_pub_key = Some (TransparentOutput.ScriptPubKey output),
            c_script_pub_key_len = length (TransparentOutput.ScriptPubKey output),
            c_value = Value output\<rparr>
      else \<lparr>c_script_pub_key = None, c_script_pub_key_len = 0, c_value = Value output\<rparr>)"

definition VerifyBeforeSigning ::
  "('d \<Rightarrow> 'r \<Rightarrow> CTransparentOutput list \<Rightarrow> unit native_result) \<Rightarrow> nat option \<Rightarrow> nat option \<Rightarrow>
     TransparentOutput list \<Rightarrow> ('d, 'r) world \<Rightarrow> go_error option \<times> ('d, 'r) world" where
  "VerifyBeforeSigning n_verify pczt request expectedChange w =
     (case pczt of
        None \<Rightarrow> (Some ErrInvalidPCZT, w)
      | Some p \<Rightarrow>
          if handle (pczt_heap w p) = None then (Some ErrInvalidPCZT, w)
          else
            (case request of
               None \<Rightarrow> (Some ErrInvalidRequest, w)
             | Some r \<Rightarrow>
                 if TransactionRequest.handle (request_heap w r) = None
                 then (Some ErrInvalidRequest, w)
                 else
                   (let cOutputs = map to_CTransparentOutput expectedChange;
                        (code, w) =
                          pczt_verify_before_signing n_verify (handle (pczt_heap w p))
                            (TransactionRequest.handle (request_heap w r)) cOutputs w
                    in if code \<noteq> SUCCESS then wrapError code w else (None, w))))"


section \<open>What the specification says of the native library\<close>

text \<open>
  Modelled from the spec: the native library's document and the bodies of
  \<^verbatim>\<open>pczt_get_sighash\<close> and \<^verbatim>\<open>pczt_append_signature\<close> are missing from the sources.
  Section 3 of the specification describes the document as the inputs being spent, the
  outputs (payments, change and shielded actions), one signature slot for each input and
  one proof slot for each shielded action. A transparent output is a script and an
  amount; a shielded action is kept as its destination and its amount.
\<close>

record document =
  doc_inputs :: "TransparentInput list"
  doc_outputs :: "TransparentOutput list"
  doc_actions :: "(string \<times> 64 word) list"
  doc_signatures :: "byte list option list"
  doc_proofs :: "byte list option list"

text \<open>The categories of the specification's error taxonomy, as the message of a failure.\<close>

definition IndexOutOfRange :: string where
  "IndexOutOfRange = ''IndexOutOfRange''"

definition InvalidSignature :: string where
  "InvalidSignature = ''InvalidSignature''"

text \<open>
  Modelled from the spec: the body of \<^verbatim>\<open>pczt_get_sighash\<close> is missing. Section 4.5: a
  digest determined by the document and the index; section 7: \<open>IndexOutOfRange\<close> for the
  sighash of a nonexistent input. The digest itself is the parameter \<open>digest\<close>; the result
  code is the header's \<^verbatim>\<open>ERROR_SIGHASH\<close>.
\<close>

definition sighash_spec ::
  "(document \<Rightarrow> nat \<Rightarrow> byte list) \<Rightarrow> document \<Rightarrow> nat \<Rightarrow> byte list native_result" where
  "sighash_spec digest d input_index =
     (if input_index < length (doc_inputs d) then Inr (digest d input_index)
      else Inl (ERROR_SIGHASH, IndexOutOfRange))"

text \<open>
  Modelled from the spec: the body of \<^verbatim>\<open>pczt_append_signature\<close> is missing. Section
  4.6: the signature is checked against the sighash and the key bound to the input
  (the parameter \<open>valid\<close>), a mismatch fails with \<open>InvalidSignature\<close>, and success fills
  that input's slot and changes nothing else; section 7: \<open>IndexOutOfRange\<close> for the
  signature of a nonexistent input. The result code is the header's
  \<^verbatim>\<open>ERROR_SIGNATURE\<close>.
\<close>

definition append_signature_spec ::
  "(document \<Rightarrow> nat \<Rightarrow> byte list \<Rightarrow> bool) \<Rightarrow> document \<Rightarrow> nat \<Rightarrow> byte list \<Rightarrow>
     document native_result" where
  "append_signature_spec valid d input_index signature =
     (if input_index < length (doc_inputs d) then
        (if valid d input_index signature
         then Inr (d\<lparr>doc_signatures := (doc_signatures d)[input_index := Some signature]\<rparr>)
         else Inl (ERROR_SIGNATURE, InvalidSignature))
      else Inl (ERROR_SIGNATURE, IndexOutOfRange))"







section \<open>Observing a document any number of times\<close>

datatype observation =
    Observe_GetSighash nat
  | Observe_VerifyBeforeSigning "nat option" "TransparentOutput list"
  | Observe_SerializePCZT

fun observe ::
  "('d \<Rightarrow> nat \<Rightarrow> byte list native_result) \<Rightarrow>
   ('d \<Rightarrow> 'r \<Rightarrow> CTransparentOutput list \<Rightarrow> unit native_result) \<Rightarrow>
   ('d \<Rightarrow> byte list native_result) \<Rightarrow> nat option \<Rightarrow> observation \<Rightarrow> ('d, 'r) world \<Rightarrow>
     ('d, 'r) world" where
  "observe n_sighash n_verify n_serialize pczt (Observe_GetSighash inputIndex) w =
     snd (GetSighash n_sighash pczt inputIndex w)"
| "observe n_sighash n_verify n_serialize pczt (Observe_VerifyBeforeSigning request change) w =
     snd (VerifyBeforeSigning n_verify pczt request change w)"
| "observe n_sighash n_verify n_serialize pczt Observe_SerializePCZT w =
     snd (SerializePCZT n_serialize pczt w)"

fun observe_all ::
  "('d \<Rightarrow> nat \<Rightarrow> byte list native_result) \<Rightarrow>
   ('d \<Rightarrow> 'r \<Rightarrow> CTransparentOutput list \<Rightarrow> unit native_result) \<Rightarrow>
   ('d \<Rightarrow> byte list native_result) \<Rightarrow> nat option \<Rightarrow> observation list \<Rightarrow> ('d, 'r) world \<Rightarrow>
     ('d, 'r) world" where
  "observe_all n_sighash n_verify n_serialize pczt [] w = w"
| "observe_all n_sighash n_verify n_serialize pczt (ob # obs) w =
     observe_all n_sighash n_verify n_serialize pczt obs
       (observe n_sighash n_verify n_serialize pczt ob w)"

text \<open>
  Two states hold the same objects and documents when they differ at most in the last
  error message, the log of calls and the fault flag.
\<close>

definition same_documents :: "('d, 'r) world \<Rightarrow> ('d, 'r) world \<Rightarrow> bool" where
  "same_documents w w' =
     (w' = w\<lparr>last_error := last_error w', calls := calls w', fault := fault w'\<rparr>)"

text \<open>A pointer that every operation on a document rejects: \<^verbatim>\<open>nil\<close>, or a nil handle.\<close>

definition invalid_pczt :: "('d, 'r) world \<Rightarrow> nat option \<Rightarrow> bool" where
  "invalid_pczt w pczt =
     (case pczt of None \<Rightarrow> True | Some p \<Rightarrow> handle (pczt_heap w p) = None)"

definition invalid_request :: "('d, 'r) world \<Rightarrow> nat option \<Rightarrow> bool" where
  "invalid_request w request =
     (case request of
        None \<Rightarrow> True
      | Some r \<Rightarrow> TransactionRequest.handle (request_heap w r) = None)"


text \<open>How often a handle was given to \<^verbatim>\<open>pczt_free\<close> or to \<^verbatim>\<open>pczt_transaction_request_free\<close>.\<close>

definition releases :: "nat \<Rightarrow> ('d, 'r) world \<Rightarrow> nat" where
  "releases h w = length (filter (\<lambda>c. c = Call_free (Some h)) (calls w))"

definition request_releases :: "nat \<Rightarrow> ('d, 'r) world \<Rightarrow> nat" where
  "request_releases h w =
     length (filter (\<lambda>c. c = Call_transaction_request_free (Some h)) (calls w))"

section \<open>A concrete state\<close>

text \<open>
  The state of the repository's tests after \<^verbatim>\<open>ProposeTransaction\<close>: a request at Go
  address 0 with native handle 20, a live document at Go address 0 with native handle 10
  and the single input of the tests, and at Go address 1 a \<^verbatim>\<open>PCZT\<close> that an earlier call
  has consumed.
\<close>

definition example_payment :: Payment where
  "example_payment =
     \<lparr>Address = ''tm9iMLAuYMzJ6jtFLcA7rzUmfreGuKvr7Ma'', Amount = 50000000, Memo = [],
      Label = [], Message = []\<rparr>"

definition example_document :: document where
  "example_document =
     \<lparr>doc_inputs = [test_input], doc_outputs = [], doc_actions = [], doc_signatures = [None],
      doc_proofs = []\<rparr>"

definition example_world :: "(document, nat) world" where
  "example_world =
     \<lparr>pczt_heap = (\<lambda>a. \<lparr>handle = None\<rparr>)(0 := \<lparr>handle = Some 10\<rparr>),
      pczt_finalizer = (\<lambda>a. False)(0 := True),
      pczt_next = 2,
      request_heap = (\<lambda>a. \<lparr>Payments = [], handle = None\<rparr>)
        (0 := \<lparr>Payments = [example_payment], handle = Some 20\<rparr>),
      request_finalizer = (\<lambda>a. False)(0 := True),
      request_next = 1,
      native_pczts = Map.empty(10 \<mapsto> example_document),
      native_requests = Map.empty(20 \<mapsto> 0),
      native_next = 21,
      last_error = [],
      calls = [],
      fault = False\<rparr>"

text \<open>Native behaviours for the examples: a prover and a combiner that fail, the rest trivial.\<close>

definition failing_prove :: "document \<Rightarrow> document native_result" where
  "failing_prove d = Inl (ERROR_PROVER, ''ProvingError'')"

definition failing_combine :: "document list \<Rightarrow> document native_result" where
  "failing_combine ds = Inl (ERROR_COMBINE, ''CombineConflict'')"

definition zero_digest :: "document \<Rightarrow> nat \<Rightarrow> byte list" where
  "zero_digest d i = replicate 32 0"

definition no_signature_valid :: "document \<Rightarrow> nat \<Rightarrow> byte list \<Rightarrow> bool" where
  "no_signature_valid d i s = False"

definition accepting_verify ::
  "document \<Rightarrow> nat \<Rightarrow> CTransparentOutput list \<Rightarrow> unit native_result" where
  "accepting_verify d r change = Inr ()"

definition empty_serialize :: "document \<Rightarrow> byte list native_result" where
  "empty_serialize d = Inr []"

definition failing_finalize :: "document \<Rightarrow> byte list native_result" where
  "failing_finalize d = Inl (ERROR_FINALIZATION, ''IncompleteDocument'')"

definition failing_sighash :: "document \<Rightarrow> nat \<Rightarrow> byte list native_result" where
  "failing_sighash d i = Inl (ERROR_SIGHASH, ''IndexOutOfRange'')"

definition failing_append :: "document \<Rightarrow> nat \<Rightarrow> byte list \<Rightarrow> document native_result" where
  "failing_append d i s = Inl (ERROR_SIGNATURE, ''InvalidSignature'')"

definition failing_new :: "CPayment list \<Rightarrow> nat native_result" where
  "failing_new ps = Inl (ERROR_PROPOSAL, ''InvalidRequest'')"

definition failing_propose :: "byte list \<Rightarrow> nat \<Rightarrow> string option \<Rightarrow> document native_result" where
  "failing_propose bs r c = Inl (ERROR_PROPOSAL, ''InsufficientFunds'')"

section \<open>The transparent workflow on the native library of the specification\<close>



























section \<open>The layout of the serialized inputs\<close>

lemma byte_of_word:
  "(ucast (drop_bit (8 * j) (w :: 'a::len word)) :: byte) = of_nat (unat w div 256 ^ j mod 256)"
proof -
  have "unat (drop_bit (8 * j) w) = unat w div 2 ^ (8 * j)"
    by (subst unat_drop_bit_eq) (rule drop_bit_eq_div)
  then have "unat (ucast (drop_bit (8 * j) w) :: byte) = unat w div 256 ^ j mod 256"
    by (simp only: unsigned_ucast_eq take_bit_eq_mod power_mult) simp
  then have "of_nat (unat (ucast (drop_bit (8 * j) w) :: byte)) =
      (of_nat (unat w div 256 ^ j mod 256) :: byte)"
    by simp
  then show ?thesis
    by simp
qed

lemma upt4: "[0..<4] = [0, 1, 2, 3]" by (simp add: upt_rec)
lemma upt8: "[0..<8] = [0, 1, 2, 3, 4, 5, 6, 7]" by (simp add: upt_rec)
lemma upt2: "[0..<2] = [0, 1]" by (simp add: upt_rec)

lemma le_field_word32:
  "le_field 4 (unat (v :: 32 word)) =
     Some [ucast v, ucast (drop_bit 8 v), ucast (drop_bit 16 v), ucast (drop_bit 24 v)]"
proof -
  have "unat v < 256 ^ 4" using unsigned_less [of v, where ?'a = nat] by simp
  then show ?thesis
    using byte_of_word [of 0 v] byte_of_word [of 1 v] byte_of_word [of 2 v] byte_of_word [of 3 v]
    by (simp add: le_field_def upt4)
qed

lemma le_field_word64:
  "le_field 8 (unat (v :: 64 word)) =
     Some [ucast v, ucast (drop_bit 8 v), ucast (drop_bit 16 v), ucast (drop_bit 24 v),
           ucast (drop_bit 32 v), ucast (drop_bit 40 v), ucast (drop_bit 48 v),
           ucast (drop_bit 56 v)]"
proof -
  have "unat v < 256 ^ 8" using unsigned_less [of v, where ?'a = nat] by simp
  then show ?thesis
    using byte_of_word [of 0 v] byte_of_word [of 1 v] byte_of_word [of 2 v] byte_of_word [of 3 v]
      byte_of_word [of 4 v] byte_of_word [of 5 v] byte_of_word [of 6 v] byte_of_word [of 7 v]
    by (simp add: le_field_def upt8)
qed

lemma le_field_len16:
  assumes "n < 65536"
  shows "le_field 2 n =
     Some [ucast (of_nat n :: 16 word), ucast (drop_bit 8 (of_nat n :: 16 word))]"
proof -
  have u: "unat (of_nat n :: 16 word) = n" using assms by (simp add: unat_of_nat)
  show ?thesis
    using assms byte_of_word [of 0 "of_nat n :: 16 word"] byte_of_word [of 1 "of_nat n :: 16 word"]
    by (simp add: le_field_def upt2 u)
qed

lemma serialize_inputs_loop_append:
  "serialize_inputs_loop buf inputs = buf @ serialize_inputs_loop [] inputs"
proof (induction inputs arbitrary: buf)
  case Nil
  show ?case by simp
next
  case (Cons i inputs)
  show ?case
    by (simp add: Let_def Cons.IH [of "_ @ _"] Cons.IH [of "Pubkey i @ _"])
qed

lemma serialize_inputs_loop_Cons:
  "serialize_inputs_loop [] (i # inputs) = input_bytes i @ serialize_inputs_loop [] inputs"
proof -
  have "serialize_inputs_loop [] (i # inputs) = serialize_inputs_loop (input_bytes i) inputs"
    by (simp add: input_bytes_def Let_def)
  also have "\<dots> = input_bytes i @ serialize_inputs_loop [] inputs"
    by (rule serialize_inputs_loop_append)
  finally show ?thesis .
qed

lemma input_layout_bytes:
  assumes "length (Pubkey i) = 33" and "length (ScriptPubKey i) < 65536"
  shows "input_layout i = Some (input_bytes i)"
proof -
  have t: "length (Rep_array32 (TxID i)) = 32"
    using Rep_array32 [of "TxID i"] by simp
  show ?thesis
    using assms t
    by (simp add: input_layout_def input_bytes_def fixed_field_def le_field_word32 le_field_word64
        le_field_len16 Let_def)
qed

lemma inputs_layout_bytes:
  assumes "\<forall>i \<in> set inputs. length (Pubkey i) = 33 \<and> length (ScriptPubKey i) < 65536"
  shows "inputs_layout inputs = Some (serialize_inputs_loop [] inputs)"
  using assms
proof (induction inputs)
  case Nil
  show ?case by simp
next
  case (Cons i inputs)
  then show ?case
    by (simp add: input_layout_bytes serialize_inputs_loop_Cons del: serialize_inputs_loop.simps)
qed

lemma serialize_header:
  "serializeTransparentInputs inputs =
     [ucast (of_nat (length inputs) :: 16 word), ucast (drop_bit 8 (of_nat (length inputs) :: 16 word))]
     @ serialize_inputs_loop [] inputs"
  unfolding serializeTransparentInputs_def Let_def
  by (subst serialize_inputs_loop_append) simp

text \<open>
  C7, as amended. For a list of fewer than 65536 inputs, each with a public key of 33
  bytes and a script shorter than 65536 bytes, \<^verbatim>\<open>serializeTransparentInputs\<close> emits
  exactly the layout of the specification: the count in two bytes, little-endian, then
  for each input the 33 bytes of the key, the 32 bytes of the transaction id, the output
  index in four bytes, the amount in eight, the script length in two, all little-endian,
  and the script, and nothing else.
\<close>

theorem serialize_layout:
  assumes "length inputs < 65536"
    and "\<forall>i \<in> set inputs. length (Pubkey i) = 33 \<and> length (ScriptPubKey i) < 65536"
  shows "wire_layout inputs = Some (serializeTransparentInputs inputs)"
  using assms
  by (simp add: wire_layout_def le_field_len16 inputs_layout_bytes serialize_header)

theorem serialize_layout_witness:
  "length [test_input] < 65536 \<and>
   length (Pubkey test_input) = 33 \<and> length (ScriptPubKey test_input) < 65536 \<and>
   wire_layout [test_input] = Some (serializeTransparentInputs [test_input])"
  using serialize_layout [of "[test_input]"]
  by (simp add: test_input_def test_pubkey_def test_script_def)

text \<open>The bytes that \<^verbatim>\<open>TestSerializeTransparentInputs\<close> checks field by field.\<close>

lemma test_txid_bytes:
  "Rep_array32 test_txid =
     [48, 48, 48, 48, 48, 48, 48, 48, 48, 48, 48, 48,
      48, 48, 48, 48, 48, 48, 48, 48, 48, 48, 48, 48,
      48, 48, 48, 48, 116, 101, 115, 116]"
  unfolding test_txid_def by (rule Abs_array32_inverse) simp

lemma serialize_test_vector:
  "serializeTransparentInputs [test_input] =
     [1, 0, 2, 121, 190, 102, 126, 249, 220, 187, 172, 85,
      160, 98, 149, 206, 135, 11, 7, 2, 155, 252, 219, 45,
      206, 40, 217, 89, 242, 129, 91, 22, 248, 23, 152, 48,
      48, 48, 48, 48, 48, 48, 48, 48, 48, 48, 48, 48,
      48, 48, 48, 48, 48, 48, 48, 48, 48, 48, 48, 48,
      48, 48, 48, 116, 101, 115, 116, 0, 0, 0, 0, 0,
      225, 245, 5, 0, 0, 0, 0, 25, 0, 118, 169, 20,
      0, 0, 0, 0, 0, 0, 0, 0, 0, 0, 0, 0,
      0, 0, 0, 0, 0, 0, 0, 0, 136, 172]"
  by (simp add: serializeTransparentInputs_def Let_def test_input_def test_pubkey_def
      test_script_def test_txid_bytes drop_bit_eq_div)

text \<open>
  Outside those bounds the bytes are not the layout of the specification. For 65536
  inputs \<^verbatim>\<open>uint16(len(inputs))\<close> is 0: the two count bytes are zero, and 65536 entries
  follow. An input with an empty key is written in 71 bytes, without the 33 bytes of a
  key. A script of 65536 bytes is written after a length field of zero.
\<close>

theorem serialize_outside_bounds:
  "take 2 (serializeTransparentInputs (replicate 65536 test_input)) = [0, 0] \<and>
   wire_layout (replicate 65536 test_input) \<noteq>
     Some (serializeTransparentInputs (replicate 65536 test_input)) \<and>
   length (serializeTransparentInputs [keyless_input]) = 2 + 71 \<and>
   wire_layout [keyless_input] \<noteq> Some (serializeTransparentInputs [keyless_input]) \<and>
   take 2 (drop 79 (serializeTransparentInputs [long_script_input])) = [0, 0] \<and>
   wire_layout [long_script_input] \<noteq> Some (serializeTransparentInputs [long_script_input])"
proof -
  have t: "length (Rep_array32 test_txid) = 32"
    by (simp add: test_txid_bytes)
  have k: "length (Pubkey test_input) = 33"
    by (simp add: test_input_def test_pubkey_def)
  have count: "take 2 (serializeTransparentInputs (replicate 65536 test_input)) = [0, 0] \<and>
      wire_layout (replicate 65536 test_input) \<noteq>
        Some (serializeTransparentInputs (replicate 65536 test_input))"
    by (simp add: serialize_header wire_layout_def le_field_def)
  have key: "length (serializeTransparentInputs [keyless_input]) = 2 + 71 \<and>
      wire_layout [keyless_input] \<noteq> Some (serializeTransparentInputs [keyless_input])"
    using t
    by (simp add: serializeTransparentInputs_def Let_def keyless_input_def test_input_def
        test_script_def wire_layout_def input_layout_def fixed_field_def le_field_def)
  have script: "take 2 (drop 79 (serializeTransparentInputs [long_script_input])) = [0, 0] \<and>
      wire_layout [long_script_input] \<noteq> Some (serializeTransparentInputs [long_script_input])"
    using t k
    by (simp add: serializeTransparentInputs_def Let_def long_script_input_def test_input_def
        wire_layout_def input_layout_def le_field_def fixed_field_def)
  from count key script show ?thesis
    by simp
qed

section \<open>Reading the serialized inputs back\<close>








section \<open>Observers leave the objects and the documents alone\<close>

lemma same_documents_refl: "same_documents w w"
  by (simp add: same_documents_def)

lemma same_documents_trans:
  "same_documents w w' \<Longrightarrow> same_documents w' w'' \<Longrightarrow> same_documents w w''"
  unfolding same_documents_def
  by (metis (no_types, lifting) world.surjective world.update_convs(10) world.update_convs(11)
      world.update_convs(12))

lemma same_documents_log_call: "same_documents w (log_call c w)"
  by (simp add: same_documents_def log_call_def)

lemma same_documents_last_error: "same_documents w (w\<lparr>last_error := m\<rparr>)"
  by (simp add: same_documents_def)

lemma same_documents_fault: "same_documents w (w\<lparr>fault := b\<rparr>)"
  by (simp add: same_documents_def)

lemma same_documents_getLastError: "same_documents w (snd (getLastError w))"
  by (simp add: getLastError_def pczt_get_last_error_def Let_def same_documents_log_call)

lemma same_documents_wrapError: "same_documents w (snd (wrapError code w))"
  by (simp add: wrapError_def split_beta same_documents_refl same_documents_getLastError)

lemma same_documents_peek_pczt: "same_documents w (snd (peek_pczt h w))"
  by (simp add: peek_pczt_def same_documents_refl same_documents_fault split: option.splits)

lemma same_documents_peek_request: "same_documents w (snd (peek_request h w))"
  by (simp add: peek_request_def same_documents_refl same_documents_fault split: option.splits)

lemma same_documents_pczt_get_sighash:
  "same_documents w (snd (pczt_get_sighash n_sighash h i w))"
proof -
  let ?w1 = "log_call (Call_get_sighash h i) w"
  let ?w2 = "snd (peek_pczt h ?w1)"
  have a: "same_documents w ?w2"
    by (rule same_documents_trans [OF same_documents_log_call same_documents_peek_pczt])
  have "same_documents ?w2 (snd (pczt_get_sighash n_sighash h i w))"
    by (simp add: pczt_get_sighash_def Let_def split_beta native_fail_def same_documents_refl
        same_documents_last_error split: option.splits sum.splits)
  with a show ?thesis by (rule same_documents_trans)
qed

lemma same_documents_pczt_serialize:
  "same_documents w (snd (pczt_serialize n_serialize h w))"
proof -
  let ?w1 = "log_call (Call_serialize h) w"
  let ?w2 = "snd (peek_pczt h ?w1)"
  have a: "same_documents w ?w2"
    by (rule same_documents_trans [OF same_documents_log_call same_documents_peek_pczt])
  have "same_documents ?w2 (snd (pczt_serialize n_serialize h w))"
    by (simp add: pczt_serialize_def Let_def split_beta native_fail_def same_documents_refl
        same_documents_last_error split: option.splits sum.splits)
  with a show ?thesis by (rule same_documents_trans)
qed

lemma same_documents_pczt_verify_before_signing:
  "same_documents w (snd (pczt_verify_before_signing n_verify h r change w))"
proof -
  let ?w1 = "log_call (Call_verify_before_signing h r) w"
  let ?w2 = "snd (peek_pczt h ?w1)"
  let ?w3 = "snd (peek_request r ?w2)"
  have a: "same_documents w ?w3"
    by (rule same_documents_trans [OF same_documents_trans
          [OF same_documents_log_call same_documents_peek_pczt] same_documents_peek_request])
  have "same_documents ?w3 (snd (pczt_verify_before_signing n_verify h r change w))"
    by (simp add: pczt_verify_before_signing_def Let_def split_beta same_documents_refl
        same_documents_last_error split: option.splits sum.splits)
  with a show ?thesis by (rule same_documents_trans)
qed

lemma same_documents_GetSighash:
  "same_documents w (snd (GetSighash n_sighash pczt inputIndex w))"
  by (simp add: GetSighash_def Let_def split_beta same_documents_refl
      same_documents_pczt_get_sighash
      same_documents_trans [OF same_documents_pczt_get_sighash same_documents_wrapError]
      split: option.splits)

lemma same_documents_copy_out: "snd (copy_out out w) = w"
  by (simp add: copy_out_def split: option.splits)

lemma same_documents_SerializePCZT:
  "same_documents w (snd (SerializePCZT n_serialize pczt w))"
  by (simp add: SerializePCZT_def Let_def split_beta same_documents_refl same_documents_copy_out
      same_documents_pczt_serialize
      same_documents_trans [OF same_documents_pczt_serialize same_documents_wrapError]
      split: option.splits)

lemma same_documents_VerifyBeforeSigning:
  "same_documents w (snd (VerifyBeforeSigning n_verify pczt request change w))"
  by (simp add: VerifyBeforeSigning_def Let_def split_beta same_documents_refl
      same_documents_pczt_verify_before_signing
      same_documents_trans [OF same_documents_pczt_verify_before_signing same_documents_wrapError]
      split: option.splits)

lemma same_documents_observe:
  "same_documents w (observe n_sighash n_verify n_serialize pczt ob w)"
  by (cases ob)
    (simp_all add: same_documents_GetSighash same_documents_SerializePCZT
      same_documents_VerifyBeforeSigning)

lemma same_documents_observe_all:
  "same_documents w (observe_all n_sighash n_verify n_serialize pczt obs w)"
proof (induction obs arbitrary: w)
  case Nil
  show ?case by (simp add: same_documents_refl)
next
  case (Cons ob obs)
  have "same_documents w (observe n_sighash n_verify n_serialize pczt ob w)"
    by (rule same_documents_observe)
  moreover have "same_documents (observe n_sighash n_verify n_serialize pczt ob w)
      (observe_all n_sighash n_verify n_serialize pczt obs
        (observe n_sighash n_verify n_serialize pczt ob w))"
    by (rule Cons.IH)
  ultimately show ?case
    by (simp add: same_documents_trans)
qed

lemma same_documents_fields:
  assumes "same_documents w w'"
  shows "pczt_heap w' = pczt_heap w" and "pczt_finalizer w' = pczt_finalizer w"
    and "native_pczts w' = native_pczts w" and "native_requests w' = native_requests w"
    and "request_heap w' = request_heap w"
proof -
  from assms have e: "w' = w\<lparr>last_error := last_error w', calls := calls w', fault := fault w'\<rparr>"
    by (simp add: same_documents_def)
  show "pczt_heap w' = pczt_heap w" by (subst e) simp
  show "pczt_finalizer w' = pczt_finalizer w" by (subst e) simp
  show "native_pczts w' = native_pczts w" by (subst e) simp
  show "native_requests w' = native_requests w" by (subst e) simp
  show "request_heap w' = request_heap w" by (subst e) simp
qed

text \<open>
  C2. \<^verbatim>\<open>GetSighash\<close>, \<^verbatim>\<open>VerifyBeforeSigning\<close> and \<^verbatim>\<open>SerializePCZT\<close> never consume the
  document: after any sequence of calls of the three on a \<^verbatim>\<open>PCZT\<close>, with any arguments
  and whatever each call returns, the handle field of every \<^verbatim>\<open>PCZT\<close> is what it was, its
  finalizer is still attached, and the native library holds the same documents behind the
  same handles.
\<close>

theorem observers_do_not_consume:
  "handle (pczt_heap (observe_all n_sighash n_verify n_serialize pczt obs w) p) =
     handle (pczt_heap w p) \<and>
   pczt_finalizer (observe_all n_sighash n_verify n_serialize pczt obs w) =
     pczt_finalizer w \<and>
   native_pczts (observe_all n_sighash n_verify n_serialize pczt obs w) = native_pczts w"
  using same_documents_fields [OF same_documents_observe_all
      [of w n_sighash n_verify n_serialize pczt obs]]
  by simp

section \<open>Invalid documents and requests are rejected before any native call\<close>

lemma first_invalid_found:
  "invalid_pczt w pczt \<Longrightarrow>
     \<exists>j. first_invalid (pczt_heap w) i (before @ pczt # after) = Some j \<and>
       i \<le> j \<and> j \<le> i + length before"
proof (induction before arbitrary: i)
  case Nil
  then show ?case
    by (cases pczt) (simp_all add: invalid_pczt_def)
next
  case (Cons x before)
  show ?case
  proof (cases x)
    case None
    then show ?thesis by simp
  next
    case (Some q)
    show ?thesis
    proof (cases "handle (pczt_heap w q) = None")
      case True
      with Some show ?thesis by simp
    next
      case False
      from Cons.IH [OF Cons.prems, of "Suc i"]
      obtain j where "first_invalid (pczt_heap w) (Suc i) (before @ pczt # after) = Some j"
        and "Suc i \<le> j" and "j \<le> Suc i + length before"
        by blast
      with Some False show ?thesis by simp
    qed
  qed
qed

text \<open>
  C9. Every exported operation on a \<^verbatim>\<open>PCZT\<close>, called with a \<^verbatim>\<open>nil\<close> pointer or with a
  \<^verbatim>\<open>PCZT\<close> whose handle is \<^verbatim>\<open>nil\<close> (consumed or freed), returns an error and leaves the
  state as it was: since the log of native calls is part of the state, no native function
  was called and no \<^verbatim>\<open>nil\<close> handle was passed on. For \<^verbatim>\<open>Combine\<close> the invalid \<^verbatim>\<open>PCZT\<close> may
  stand anywhere in the list; the error names the first invalid index.
\<close>

theorem invalid_pczt_rejected:
  assumes "invalid_pczt w pczt"
  shows "ProveTransaction n_prove pczt w = ((None, Some ErrInvalidPCZT), w) \<and>
    GetSighash n_sighash pczt inputIndex w = ((zero32, Some ErrInvalidPCZT), w) \<and>
    AppendSignature n_append pczt inputIndex signature w = ((None, Some ErrInvalidPCZT), w) \<and>
    FinalizeAndExtract n_finalize pczt w = ((None, Some ErrInvalidPCZT), w) \<and>
    SerializePCZT n_serialize pczt w = ((None, Some ErrInvalidPCZT), w) \<and>
    VerifyBeforeSigning n_verify pczt request change w = (Some ErrInvalidPCZT, w) \<and>
    (\<exists>j \<le> length before.
       Combine n_combine (before @ pczt # after) w = ((None, Some (ErrInvalidPCZTAt j)), w))"
proof -
  have ops: "ProveTransaction n_prove pczt w = ((None, Some ErrInvalidPCZT), w) \<and>
    GetSighash n_sighash pczt inputIndex w = ((zero32, Some ErrInvalidPCZT), w) \<and>
    AppendSignature n_append pczt inputIndex signature w = ((None, Some ErrInvalidPCZT), w) \<and>
    FinalizeAndExtract n_finalize pczt w = ((None, Some ErrInvalidPCZT), w) \<and>
    SerializePCZT n_serialize pczt w = ((None, Some ErrInvalidPCZT), w) \<and>
    VerifyBeforeSigning n_verify pczt request change w = (Some ErrInvalidPCZT, w)"
    using assms
    by (cases pczt)
      (simp_all add: invalid_pczt_def ProveTransaction_def GetSighash_def AppendSignature_def
        FinalizeAndExtract_def SerializePCZT_def VerifyBeforeSigning_def)
  from first_invalid_found [OF assms, of 0 before after]
  obtain j where j: "first_invalid (pczt_heap w) 0 (before @ pczt # after) = Some j"
    and le: "j \<le> length before"
    by auto
  have "Combine n_combine (before @ pczt # after) w = ((None, Some (ErrInvalidPCZTAt j)), w)"
    by (simp add: Combine_def j)
  with le ops show ?thesis by blast
qed

theorem invalid_pczt_rejected_witness:
  "invalid_pczt example_world (Some 1) \<and>
   ProveTransaction failing_prove (Some 1) example_world =
     ((None, Some ErrInvalidPCZT), example_world) \<and>
   GetSighash failing_sighash (Some 1) 0 example_world =
     ((zero32, Some ErrInvalidPCZT), example_world) \<and>
   AppendSignature failing_append (Some 1) 0 (replicate 64 0)
       example_world =
     ((None, Some ErrInvalidPCZT), example_world) \<and>
   FinalizeAndExtract failing_finalize (Some 1) example_world =
     ((None, Some ErrInvalidPCZT), example_world) \<and>
   SerializePCZT empty_serialize (Some 1) example_world =
     ((None, Some ErrInvalidPCZT), example_world) \<and>
   VerifyBeforeSigning accepting_verify (Some 1) (Some 0) [] example_world =
     (Some ErrInvalidPCZT, example_world) \<and>
   (\<exists>j \<le> length [Some (0::nat)].
      Combine failing_combine ([Some 0] @ Some 1 # []) example_world =
        ((None, Some (ErrInvalidPCZTAt j)), example_world))"
proof -
  have h: "invalid_pczt example_world (Some 1)"
    by (simp add: invalid_pczt_def example_world_def)
  from invalid_pczt_rejected [OF h] h show ?thesis
    by blast
qed

text \<open>
  C8. \<^verbatim>\<open>NewTransactionRequest\<close> returns an error and no request for the empty payment
  list; \<^verbatim>\<open>ProposeTransaction\<close> and \<^verbatim>\<open>ProposeTransactionWithChange\<close> return an error and
  no document for the empty input list and for a request that is \<^verbatim>\<open>nil\<close> or has a
  \<^verbatim>\<open>nil\<close> handle. In each case the state is unchanged: nothing is created and no native
  function is called.
\<close>

theorem empty_or_invalid_rejected:
  assumes "invalid_request w request"
  shows "NewTransactionRequest n_new [] w = ((None, Some ErrAtLeastOnePayment), w) \<and>
    ProposeTransactionWithChange n_propose [] any_request changeAddress w =
      ((None, Some ErrAtLeastOneInput), w) \<and>
    ProposeTransaction n_propose [] any_request w = ((None, Some ErrAtLeastOneInput), w) \<and>
    ProposeTransactionWithChange n_propose (input # inputs) request changeAddress w =
      ((None, Some ErrInvalidRequest), w) \<and>
    ProposeTransaction n_propose (input # inputs) request w =
      ((None, Some ErrInvalidRequest), w)"
  using assms
  by (cases request)
    (simp_all add: invalid_request_def NewTransactionRequest_def ProposeTransaction_def
      ProposeTransactionWithChange_def)

theorem empty_or_invalid_rejected_witness:
  "invalid_request example_world None \<and>
   NewTransactionRequest failing_new [] example_world =
     ((None, Some ErrAtLeastOnePayment), example_world) \<and>
   ProposeTransactionWithChange failing_propose [] (Some 0) [] example_world =
     ((None, Some ErrAtLeastOneInput), example_world) \<and>
   ProposeTransaction failing_propose [] (Some 0) example_world =
     ((None, Some ErrAtLeastOneInput), example_world) \<and>
   ProposeTransactionWithChange failing_propose (test_input # []) None [] example_world =
     ((None, Some ErrInvalidRequest), example_world) \<and>
   ProposeTransaction failing_propose (test_input # []) None example_world =
     ((None, Some ErrInvalidRequest), example_world)"
proof -
  have h: "invalid_request example_world None"
    by (simp add: invalid_request_def)
  from empty_or_invalid_rejected [OF h] h show ?thesis
    by blast
qed

section \<open>\<^verbatim>\<open>Combine\<close> and the handles of its arguments\<close>

text \<open>
  C1. \<^verbatim>\<open>Combine\<close> on the list of the live \<^verbatim>\<open>PCZT\<close> at address 0 and the already
  consumed \<^verbatim>\<open>PCZT\<close> at address 1: the validation loop returns the error for index 1
  before the consuming loop starts, so the first element keeps its handle, its finalizer
  and its native document, and no native function is called. The comment of \<^verbatim>\<open>Combine\<close>
  promises that all inputs are consumed, even on error.
\<close>

theorem Combine_keeps_handle_on_invalid_element:
  "Combine n_combine [Some 0, Some 1] example_world =
     ((None, Some (ErrInvalidPCZTAt 1)), example_world) \<and>
   handle (pczt_heap example_world 0) = Some 10 \<and>
   pczt_finalizer example_world 0 \<and>
   native_pczts example_world 10 = Some example_document"
  by (simp add: Combine_def example_world_def)

section \<open>The invalid-index scenario\<close>

lemma takeWhile_IndexOutOfRange:
  "takeWhile (\<lambda>b. b \<noteq> CHR 0x00) IndexOutOfRange = IndexOutOfRange"
  by (simp add: IndexOutOfRange_def)

lemma length_IndexOutOfRange: "length IndexOutOfRange < 512"
  by (simp add: IndexOutOfRange_def)

text \<open>
  C6. On a live \<^verbatim>\<open>PCZT\<close> whose document has one input, with the native functions as the
  specification describes them: \<^verbatim>\<open>GetSighash\<close> with index 999 returns the zero digest
  and the error of an index out of range, and the \<^verbatim>\<open>PCZT\<close> keeps its handle and the
  library its document; \<^verbatim>\<open>AppendSignature\<close> with index 999 returns no \<^verbatim>\<open>PCZT\<close> and the
  error of an index out of range, and the \<^verbatim>\<open>PCZT\<close> has lost its handle and its finalizer
  and the library has released the document.
\<close>

theorem invalid_index_scenario:
  assumes "handle (pczt_heap w p) = Some h"
    and "native_pczts w h = Some d"
    and "length (doc_inputs d) = 1"
  shows "fst (GetSighash (sighash_spec digest) (Some p) 999 w) =
      (zero32, Some (T2zError ERROR_SIGHASH IndexOutOfRange)) \<and>
    handle (pczt_heap (snd (GetSighash (sighash_spec digest) (Some p) 999 w)) p) = Some h \<and>
    native_pczts (snd (GetSighash (sighash_spec digest) (Some p) 999 w)) h = Some d \<and>
    fst (AppendSignature (append_signature_spec valid) (Some p) 999 signature w) =
      (None, Some (T2zError ERROR_SIGNATURE IndexOutOfRange)) \<and>
    handle (pczt_heap (snd (AppendSignature (append_signature_spec valid) (Some p) 999
      signature w)) p) = None \<and>
    \<not> pczt_finalizer (snd (AppendSignature (append_signature_spec valid) (Some p) 999
      signature w)) p \<and>
    native_pczts (snd (AppendSignature (append_signature_spec valid) (Some p) 999
      signature w)) h = None"
proof -
  have g: "GetSighash (sighash_spec digest) (Some p) 999 w =
      ((zero32, Some (T2zError ERROR_SIGHASH IndexOutOfRange)),
       w\<lparr>calls := calls w @ [Call_get_sighash (Some h) 999, Call_get_last_error],
         last_error := IndexOutOfRange\<rparr>)"
    using assms
    by (simp add: GetSighash_def pczt_get_sighash_def log_call_def peek_pczt_def
        sighash_spec_def native_fail_def wrapError_def getLastError_def
        pczt_get_last_error_def takeWhile_IndexOutOfRange length_IndexOutOfRange)
  have a: "AppendSignature (append_signature_spec valid) (Some p) 999 signature w =
      ((None, Some (T2zError ERROR_SIGNATURE IndexOutOfRange)),
       w\<lparr>pczt_finalizer := (pczt_finalizer w)(p := False),
         pczt_heap := (pczt_heap w)(p := (pczt_heap w p)\<lparr>handle := None\<rparr>),
         calls := calls w @ [Call_append_signature (Some h) 999, Call_get_last_error],
         native_pczts := (native_pczts w)(h := None),
         last_error := IndexOutOfRange\<rparr>)"
    using assms
    by (simp add: AppendSignature_def consumeHandle_def pczt_append_signature_def log_call_def
        take_pczt_def append_signature_spec_def native_fail_def wrapError_def getLastError_def
        pczt_get_last_error_def takeWhile_IndexOutOfRange length_IndexOutOfRange)
  show ?thesis
    using assms by (simp add: g a)
qed

theorem invalid_index_scenario_witness:
  "handle (pczt_heap example_world 0) = Some 10 \<and>
   native_pczts example_world 10 = Some example_document \<and>
   length (doc_inputs example_document) = 1 \<and>
   fst (GetSighash (sighash_spec zero_digest) (Some 0) 999 example_world) =
     (zero32, Some (T2zError ERROR_SIGHASH IndexOutOfRange)) \<and>
   handle (pczt_heap (snd (GetSighash (sighash_spec zero_digest) (Some 0) 999 example_world)) 0)
     = Some 10 \<and>
   fst (AppendSignature (append_signature_spec no_signature_valid) (Some 0) 999
     (replicate 64 0) example_world) =
     (None, Some (T2zError ERROR_SIGNATURE IndexOutOfRange)) \<and>
   handle (pczt_heap (snd (AppendSignature (append_signature_spec no_signature_valid) (Some 0)
     999 (replicate 64 0) example_world)) 0) = None"
proof -
  have h1: "handle (pczt_heap example_world 0) = Some 10"
    by (simp add: example_world_def)
  have h2: "native_pczts example_world 10 = Some example_document"
    by (simp add: example_world_def)
  have h3: "length (doc_inputs example_document) = 1"
    by (simp add: example_document_def)
  from invalid_index_scenario [OF h1 h2 h3] h1 h2 h3 show ?thesis
    by blast
qed

section \<open>\<^verbatim>\<open>Combine\<close> on a list of valid documents\<close>

lemma first_invalid_None:
  "first_invalid heap i pczts = None \<Longrightarrow> None \<notin> set pczts"
  by (induction heap i pczts rule: first_invalid.induct) (auto split: if_splits)

lemma consumeHandle_clears: "handle (pczt_heap (snd (consumeHandle p w)) p) = None"
  by (simp add: consumeHandle_def Let_def)

lemma consumeHandle_keeps_nil:
  "handle (pczt_heap w q) = None \<Longrightarrow> handle (pczt_heap (snd (consumeHandle p w)) q) = None"
  by (simp add: consumeHandle_def Let_def)

lemma consumeHandle_pczt_next: "pczt_next (snd (consumeHandle p w)) = pczt_next w"
  by (simp add: consumeHandle_def Let_def)

lemma consume_handles_keeps_nil:
  "handle (pczt_heap w q) = None \<Longrightarrow>
     handle (pczt_heap (snd (consume_handles pczts w)) q) = None"
proof (induction pczts arbitrary: w)
  case Nil
  then show ?case by simp
next
  case (Cons x pczts)
  show ?case
  proof (cases x)
    case None
    with Cons.prems show ?thesis by simp
  next
    case (Some p)
    have "handle (pczt_heap (snd (consume_handles pczts (snd (consumeHandle p w)))) q) = None"
      by (rule Cons.IH) (rule consumeHandle_keeps_nil [OF Cons.prems])
    with Some show ?thesis
      by (simp add: split_beta split: sum.splits)
  qed
qed

lemma consume_handles_clears:
  "None \<notin> set pczts \<Longrightarrow> Some p \<in> set pczts \<Longrightarrow>
     handle (pczt_heap (snd (consume_handles pczts w)) p) = None"
proof (induction pczts arbitrary: w)
  case Nil
  then show ?case by simp
next
  case (Cons x pczts)
  from Cons.prems(1) obtain q where x: "x = Some q" and rest: "None \<notin> set pczts"
    by (cases x) auto
  have "handle (pczt_heap (snd (consume_handles pczts (snd (consumeHandle q w)))) p) = None"
  proof (cases "q = p")
    case True
    show ?thesis
      by (rule consume_handles_keeps_nil) (simp add: True consumeHandle_clears)
  next
    case False
    with Cons.prems(2) x have "Some p \<in> set pczts" by simp
    with rest show ?thesis by (rule Cons.IH)
  qed
  with x show ?case
    by (simp add: split_beta split: sum.splits)
qed

lemma consume_handles_pczt_next:
  "pczt_next (snd (consume_handles pczts w)) = pczt_next w"
proof (induction pczts arbitrary: w)
  case Nil
  show ?case by simp
next
  case (Cons x pczts)
  show ?case
  proof (cases x)
    case None
    then show ?thesis by simp
  next
    case (Some q)
    then show ?thesis
      by (simp add: split_beta Cons.IH consumeHandle_pczt_next split: sum.splits)
  qed
qed

lemma consume_handles_total:
  "None \<notin> set pczts \<Longrightarrow> \<exists>handles. fst (consume_handles pczts w) = Inr handles"
proof (induction pczts arbitrary: w)
  case Nil
  show ?case by simp
next
  case (Cons x pczts)
  from Cons.prems obtain q where x: "x = Some q" and rest: "None \<notin> set pczts"
    by (cases x) auto
  from Cons.IH [OF rest, of "snd (consumeHandle q w)"]
  obtain handles where "fst (consume_handles pczts (snd (consumeHandle q w))) = Inr handles"
    by blast
  with x show ?case
    by (simp add: split_beta split: sum.splits)
qed

lemma take_pczt_go_heap:
  "pczt_heap (snd (take_pczt h w)) = pczt_heap w \<and> pczt_next (snd (take_pczt h w)) = pczt_next w"
  by (simp add: take_pczt_def split: option.splits)

lemma take_pczts_go_heap:
  "pczt_heap (snd (take_pczts hs w)) = pczt_heap w \<and>
   pczt_next (snd (take_pczts hs w)) = pczt_next w"
  by (induction hs arbitrary: w) (simp_all add: split_beta take_pczt_go_heap)

lemma pczt_combine_go_heap:
  "pczt_heap (snd (pczt_combine n_combine hs w)) = pczt_heap w \<and>
   pczt_next (snd (pczt_combine n_combine hs w)) = pczt_next w"
  using take_pczts_go_heap [of hs "log_call (Call_combine hs) w"]
  by (simp add: pczt_combine_def Let_def split_beta native_fail_def return_pczt_def log_call_def
      split: option.splits sum.splits)

lemma wrapError_go_heap: "pczt_heap (snd (wrapError code w)) = pczt_heap w"
  using same_documents_fields(1) [OF same_documents_wrapError] .

lemma newPCZT_other:
  "p < pczt_next w \<Longrightarrow> pczt_heap (snd (newPCZT h w)) p = pczt_heap w p"
  by (simp add: newPCZT_def Let_def)

text \<open>
  When every element of the list is a \<^verbatim>\<open>PCZT\<close> with a live handle, \<^verbatim>\<open>Combine\<close> leaves
  every element without its handle, whatever the native call returns: the path that does
  what the comment of \<^verbatim>\<open>Combine\<close> promises.
\<close>

lemma Combine_consumes_valid_list:
  assumes valid: "first_invalid (pczt_heap w) 0 pczts = None"
    and nonempty: "pczts \<noteq> []"
    and mem: "Some p \<in> set pczts"
    and allocated: "p < pczt_next w"
  shows "handle (pczt_heap (snd (Combine n_combine pczts w)) p) = None"
proof -
  have nn: "None \<notin> set pczts"
    using valid by (rule first_invalid_None)
  obtain r w1 where cw: "consume_handles pczts w = (r, w1)"
    by (cases "consume_handles pczts w")
  obtain handles where r: "r = Inr handles"
    using consume_handles_total [OF nn, of w] cw by auto
  have c1: "handle (pczt_heap w1 p) = None"
    using consume_handles_clears [OF nn mem, of w] cw by simp
  have n1: "pczt_next w1 = pczt_next w"
    using consume_handles_pczt_next [of pczts w] cw by simp
  obtain code outHandle w2 where pc: "pczt_combine n_combine handles w1 = ((code, outHandle), w2)"
    by (cases "pczt_combine n_combine handles w1") auto
  have c2: "handle (pczt_heap w2 p) = None" and n2: "p < pczt_next w2"
    using c1 n1 allocated pczt_combine_go_heap [of n_combine handles w1] pc by simp_all
  have c3: "handle (pczt_heap (snd (wrapError code w2)) p) = None"
    using c2 by (simp add: wrapError_go_heap)
  have c4: "handle (pczt_heap (snd (newPCZT outHandle w2)) p) = None"
    using c2 n2 by (simp add: newPCZT_other)
  show ?thesis
    using nonempty c3 c4
    by (simp add: Combine_def valid cw r pc split_beta)
qed

text \<open>
  The three operations that consume one document leave it without its handle on every
  return, an error included.
\<close>

lemma pczt_prove_transaction_go_heap:
  "pczt_heap (snd (pczt_prove_transaction n_prove h w)) = pczt_heap w \<and>
   pczt_next (snd (pczt_prove_transaction n_prove h w)) = pczt_next w"
  using take_pczt_go_heap [of h "log_call (Call_prove_transaction h) w"]
  by (simp add: pczt_prove_transaction_def Let_def split_beta native_fail_def return_pczt_def
      log_call_def split: option.splits sum.splits)

lemma pczt_append_signature_go_heap:
  "pczt_heap (snd (pczt_append_signature n_append h i s w)) = pczt_heap w \<and>
   pczt_next (snd (pczt_append_signature n_append h i s w)) = pczt_next w"
  using take_pczt_go_heap [of h "log_call (Call_append_signature h i) w"]
  by (simp add: pczt_append_signature_def Let_def split_beta native_fail_def return_pczt_def
      log_call_def split: option.splits sum.splits)

lemma pczt_finalize_and_extract_go_heap:
  "pczt_heap (snd (pczt_finalize_and_extract n_finalize h w)) = pczt_heap w"
  using take_pczt_go_heap [of h "log_call (Call_finalize_and_extract h) w"]
  by (simp add: pczt_finalize_and_extract_def Let_def split_beta native_fail_def log_call_def
      split: option.splits sum.splits)

lemma ProveTransaction_consumes:
  assumes "p < pczt_next w"
  shows "handle (pczt_heap (snd (ProveTransaction n_prove (Some p) w)) p) = None"
proof (cases "handle (pczt_heap w p) = None")
  case True
  then show ?thesis by (simp add: ProveTransaction_def)
next
  case False
  obtain h w1 where c: "consumeHandle p w = (h, w1)"
    by (cases "consumeHandle p w")
  obtain code out w2 where n: "pczt_prove_transaction n_prove h w1 = ((code, out), w2)"
    by (cases "pczt_prove_transaction n_prove h w1") auto
  have c1: "handle (pczt_heap w1 p) = None" and n1: "pczt_next w1 = pczt_next w"
    using consumeHandle_clears [of p w] consumeHandle_pczt_next [of p w] c by simp_all
  have c2: "handle (pczt_heap w2 p) = None" and n2: "p < pczt_next w2"
    using c1 n1 assms pczt_prove_transaction_go_heap [of n_prove h w1] n by simp_all
  have "handle (pczt_heap (snd (wrapError code w2)) p) = None"
    using c2 by (simp add: wrapError_go_heap)
  moreover have "handle (pczt_heap (snd (newPCZT out w2)) p) = None"
    using c2 n2 by (simp add: newPCZT_other)
  ultimately show ?thesis
    using False by (simp add: ProveTransaction_def c n split_beta)
qed

lemma AppendSignature_consumes:
  assumes "p < pczt_next w"
  shows "handle (pczt_heap (snd (AppendSignature n_append (Some p) i s w)) p) = None"
proof (cases "handle (pczt_heap w p) = None")
  case True
  then show ?thesis by (simp add: AppendSignature_def)
next
  case False
  obtain h w1 where c: "consumeHandle p w = (h, w1)"
    by (cases "consumeHandle p w")
  obtain code out w2 where n: "pczt_append_signature n_append h i s w1 = ((code, out), w2)"
    by (cases "pczt_append_signature n_append h i s w1") auto
  have c1: "handle (pczt_heap w1 p) = None" and n1: "pczt_next w1 = pczt_next w"
    using consumeHandle_clears [of p w] consumeHandle_pczt_next [of p w] c by simp_all
  have c2: "handle (pczt_heap w2 p) = None" and n2: "p < pczt_next w2"
    using c1 n1 assms pczt_append_signature_go_heap [of n_append h i s w1] n by simp_all
  have "handle (pczt_heap (snd (wrapError code w2)) p) = None"
    using c2 by (simp add: wrapError_go_heap)
  moreover have "handle (pczt_heap (snd (newPCZT out w2)) p) = None"
    using c2 n2 by (simp add: newPCZT_other)
  ultimately show ?thesis
    using False by (simp add: AppendSignature_def c n split_beta)
qed

lemma FinalizeAndExtract_consumes:
  "handle (pczt_heap (snd (FinalizeAndExtract n_finalize (Some p) w)) p) = None"
proof (cases "handle (pczt_heap w p) = None")
  case True
  then show ?thesis by (simp add: FinalizeAndExtract_def)
next
  case False
  obtain h w1 where c: "consumeHandle p w = (h, w1)"
    by (cases "consumeHandle p w")
  obtain code out w2 where n: "pczt_finalize_and_extract n_finalize h w1 = ((code, out), w2)"
    by (cases "pczt_finalize_and_extract n_finalize h w1") auto
  have c1: "handle (pczt_heap w1 p) = None"
    using consumeHandle_clears [of p w] c by simp
  have c2: "handle (pczt_heap w2 p) = None"
    using c1 pczt_finalize_and_extract_go_heap [of n_finalize h w1] n by simp
  have "handle (pczt_heap (snd (wrapError code w2)) p) = None"
    using c2 by (simp add: wrapError_go_heap)
  moreover have "handle (pczt_heap (snd (copy_out out w2)) p) = None"
    using c2 by (simp add: same_documents_copy_out)
  ultimately show ?thesis
    using False by (simp add: FinalizeAndExtract_def c n split_beta)
qed

text \<open>
  The same pointer twice in the list passes the validation loop; the second
  \<^verbatim>\<open>consumeHandle\<close> then returns \<^verbatim>\<open>nil\<close>, which goes to \<^verbatim>\<open>pczt_combine\<close> beside the
  handle itself.
\<close>

lemma Combine_alias_passes_nil:
  "calls (snd (Combine failing_combine [Some 0, Some 0] example_world)) =
     [Call_combine [Some 10, None], Call_get_last_error]"
  by (simp add: Combine_def example_world_def consumeHandle_def pczt_combine_def log_call_def
      take_pczt_def native_fail_def null_pointer_def wrapError_def getLastError_def
      pczt_get_last_error_def Let_def)

section \<open>\<^verbatim>\<open>Free\<close>\<close>

lemma PCZT_Free_handle: "handle (pczt_heap (PCZT_Free p w) p) = None"
  by (simp add: PCZT_Free_def pczt_free_def log_call_def Let_def split: option.splits)

lemma PCZT_Free_nil: "handle (pczt_heap w p) = None \<Longrightarrow> PCZT_Free p w = w"
  by (simp add: PCZT_Free_def)

lemma PCZT_Free_twice: "PCZT_Free p (PCZT_Free p w) = PCZT_Free p w"
  by (rule PCZT_Free_nil) (rule PCZT_Free_handle)

lemma PCZT_Free_many: "(PCZT_Free p ^^ Suc n) w = PCZT_Free p w"
  by (induction n) (simp_all add: PCZT_Free_twice)

lemma TransactionRequest_Free_handle:
  "TransactionRequest.handle (request_heap (TransactionRequest_Free r w) r) = None"
  by (simp add: TransactionRequest_Free_def pczt_transaction_request_free_def log_call_def
      Let_def split: option.splits)

lemma TransactionRequest_Free_nil:
  "TransactionRequest.handle (request_heap w r) = None \<Longrightarrow> TransactionRequest_Free r w = w"
  by (simp add: TransactionRequest_Free_def)

lemma TransactionRequest_Free_twice:
  "TransactionRequest_Free r (TransactionRequest_Free r w) = TransactionRequest_Free r w"
  by (rule TransactionRequest_Free_nil) (rule TransactionRequest_Free_handle)

lemma TransactionRequest_Free_many:
  "(TransactionRequest_Free r ^^ Suc n) w = TransactionRequest_Free r w"
  by (induction n) (simp_all add: TransactionRequest_Free_twice)

lemma PCZT_Free_calls:
  "calls (PCZT_Free p w) =
     (case handle (pczt_heap w p) of None \<Rightarrow> calls w | Some h \<Rightarrow> calls w @ [Call_free (Some h)])"
  by (simp add: PCZT_Free_def pczt_free_def log_call_def Let_def split: option.splits)

lemma TransactionRequest_Free_calls:
  "calls (TransactionRequest_Free r w) =
     (case TransactionRequest.handle (request_heap w r) of
        None \<Rightarrow> calls w
      | Some k \<Rightarrow> calls w @ [Call_transaction_request_free (Some k)])"
  by (simp add: TransactionRequest_Free_def pczt_transaction_request_free_def log_call_def
      Let_def split: option.splits)

lemma PCZT_Free_at_most_one_call:
  "length (calls ((PCZT_Free p ^^ n) w)) \<le> Suc (length (calls w))"
proof (cases n)
  case 0
  then show ?thesis by simp
next
  case (Suc m)
  then show ?thesis
    by (simp only: PCZT_Free_many PCZT_Free_calls) (simp split: option.splits)
qed

lemma TransactionRequest_Free_at_most_one_call:
  "length (calls ((TransactionRequest_Free r ^^ n) w)) \<le> Suc (length (calls w))"
proof (cases n)
  case 0
  then show ?thesis by simp
next
  case (Suc m)
  then show ?thesis
    by (simp only: TransactionRequest_Free_many TransactionRequest_Free_calls)
      (simp split: option.splits)
qed

lemma pczt_finalize_after_Free:
  "calls (pczt_finalize p (PCZT_Free p w)) = calls (PCZT_Free p w)"
  using PCZT_Free_handle [of p w]
  by (simp add: pczt_finalize_def Let_def)

lemma request_finalize_after_Free:
  "calls (request_finalize r (TransactionRequest_Free r w)) = calls (TransactionRequest_Free r w)"
  using TransactionRequest_Free_handle [of r w]
  by (simp add: request_finalize_def Let_def)

text \<open>
  C10. \<^verbatim>\<open>Free\<close> on a \<^verbatim>\<open>PCZT\<close> and on a \<^verbatim>\<open>TransactionRequest\<close> is idempotent: any
  number of calls, one at least, leaves the state of the first call, with the handle
  \<^verbatim>\<open>nil\<close>; all the calls together make at most one native call; and the finalizer,
  should the collector still run it, makes none. On an object with a live handle the
  first call clears the finalizer and gives the handle to the native free function, so
  that the handle is released exactly once however often \<^verbatim>\<open>Free\<close> runs.
\<close>

theorem Free_idempotent:
  "(PCZT_Free p ^^ Suc n) w = PCZT_Free p w \<and>
   handle (pczt_heap (PCZT_Free p w) p) = None \<and>
   length (calls ((PCZT_Free p ^^ n) w)) \<le> Suc (length (calls w)) \<and>
   calls (pczt_finalize p (PCZT_Free p w)) = calls (PCZT_Free p w) \<and>
   (handle (pczt_heap w p) = Some h \<longrightarrow>
      \<not> pczt_finalizer (PCZT_Free p w) p \<and>
      calls (PCZT_Free p w) = calls w @ [Call_free (Some h)] \<and>
      releases h ((PCZT_Free p ^^ Suc n) w) = Suc (releases h w)) \<and>
   (TransactionRequest_Free r ^^ Suc n) w = TransactionRequest_Free r w \<and>
   TransactionRequest.handle (request_heap (TransactionRequest_Free r w) r) = None \<and>
   length (calls ((TransactionRequest_Free r ^^ n) w)) \<le> Suc (length (calls w)) \<and>
   calls (request_finalize r (TransactionRequest_Free r w)) =
     calls (TransactionRequest_Free r w) \<and>
   (TransactionRequest.handle (request_heap w r) = Some k \<longrightarrow>
      \<not> request_finalizer (TransactionRequest_Free r w) r \<and>
      calls (TransactionRequest_Free r w) =
        calls w @ [Call_transaction_request_free (Some k)] \<and>
      request_releases k ((TransactionRequest_Free r ^^ Suc n) w) =
        Suc (request_releases k w))"
proof -
  have p1: "handle (pczt_heap w p) = Some h \<longrightarrow> \<not> pczt_finalizer (PCZT_Free p w) p"
    by (simp add: PCZT_Free_def pczt_free_def log_call_def Let_def split: option.splits)
  have p2: "handle (pczt_heap w p) = Some h \<longrightarrow>
      calls (PCZT_Free p w) = calls w @ [Call_free (Some h)]"
    by (simp add: PCZT_Free_calls)
  have p3: "handle (pczt_heap w p) = Some h \<longrightarrow>
      releases h ((PCZT_Free p ^^ Suc n) w) = Suc (releases h w)"
    by (simp only: PCZT_Free_many) (simp add: releases_def PCZT_Free_calls)
  have r1: "TransactionRequest.handle (request_heap w r) = Some k \<longrightarrow>
      \<not> request_finalizer (TransactionRequest_Free r w) r"
    by (simp add: TransactionRequest_Free_def pczt_transaction_request_free_def log_call_def
        Let_def split: option.splits)
  have r2: "TransactionRequest.handle (request_heap w r) = Some k \<longrightarrow>
      calls (TransactionRequest_Free r w) =
        calls w @ [Call_transaction_request_free (Some k)]"
    by (simp add: TransactionRequest_Free_calls)
  have r3: "TransactionRequest.handle (request_heap w r) = Some k \<longrightarrow>
      request_releases k ((TransactionRequest_Free r ^^ Suc n) w) =
        Suc (request_releases k w)"
    by (simp only: TransactionRequest_Free_many)
      (simp add: request_releases_def TransactionRequest_Free_calls)
  note u = PCZT_Free_many [where p = p and n = n and w = w] PCZT_Free_handle [of p w]
    PCZT_Free_at_most_one_call [where p = p and n = n and w = w]
    pczt_finalize_after_Free [of p w]
    TransactionRequest_Free_many [where r = r and n = n and w = w]
    TransactionRequest_Free_handle [of r w]
    TransactionRequest_Free_at_most_one_call [where r = r and n = n and w = w]
    request_finalize_after_Free [of r w]
  from u p1 p2 p3 r1 r2 r3 show ?thesis
    by blast
qed

theorem Free_idempotent_witness:
  "handle (pczt_heap example_world 0) = Some 10 \<and>
   TransactionRequest.handle (request_heap example_world 0) = Some 20 \<and>
   (PCZT_Free 0 ^^ Suc 2) example_world = PCZT_Free 0 example_world \<and>
   \<not> pczt_finalizer (PCZT_Free 0 example_world) 0 \<and>
   calls (PCZT_Free 0 example_world) = calls example_world @ [Call_free (Some 10)] \<and>
   releases 10 ((PCZT_Free 0 ^^ Suc 2) example_world) = Suc (releases 10 example_world) \<and>
   (TransactionRequest_Free 0 ^^ Suc 2) example_world =
     TransactionRequest_Free 0 example_world \<and>
   \<not> request_finalizer (TransactionRequest_Free 0 example_world) 0 \<and>
   request_releases 20 ((TransactionRequest_Free 0 ^^ Suc 2) example_world) =
     Suc (request_releases 20 example_world)"
proof -
  have h1: "handle (pczt_heap example_world 0) = Some 10"
    by (simp add: example_world_def)
  have h2: "TransactionRequest.handle (request_heap example_world 0) = Some 20"
    by (simp add: example_world_def)
  from Free_idempotent [where p = 0 and n = 2 and w = example_world and h = 10 and r = 0
      and k = 20] h1 h2 show ?thesis
    by blast
qed

section \<open>The fee\<close>







section \<open>The steps of the workflow when the native call succeeds\<close>









section \<open>The end-to-end scenario\<close>





end
